theory Spec2Isabelle
  imports Main "HOL-Library.Sublist" "HOL-Library.Word"
begin

unbundle bit_operations_syntax

section \<open>Strings, numbers and the MD5 digest\<close>

text \<open>
  A JavaScript string is modelled by the list of its UTF-8 bytes (\<open>string\<close>), which is
  what \<open>crypto\<close> hashes and what the wire protocol carries; a \<open>Buffer\<close> is a list of
  bytes as well. The characters the source tests for (the double quote, NUL, digits,
  punctuation) are single bytes, and no byte of a longer UTF-8 sequence equals one of them.

  The numbers of the source (\<open>tableOID\<close>, \<open>columnAttrNumber\<close>, \<open>typeOID\<close>, ...) are the
  integers that the wire protocol carries; \<open>show_int\<close> is their rendering in a template
  literal \<open>`${n}`\<close>: decimal digits, with a leading minus sign below zero.
\<close>

type_synonym Buffer = string

definition digit :: "nat \<Rightarrow> char" where
  "digit d = ''0123456789'' ! d"

fun show_nat :: "nat \<Rightarrow> string" where
  "show_nat n = (if n < 10 then [digit n] else show_nat (n div 10) @ [digit (n mod 10)])"

declare show_nat.simps [simp del]

definition show_int :: "int \<Rightarrow> string" where
  "show_int i = (if i < 0 then CHR ''-'' # show_nat (nat (- i)) else show_nat (nat i))"

text \<open>\<open>Array.prototype.join\<close> on an array of strings.\<close>

fun join :: "string \<Rightarrow> string list \<Rightarrow> string" where
  "join sep [] = []"
| "join sep [x] = x"
| "join sep (x # y # ys) = x @ sep @ join sep (y # ys)"

text \<open>
  A value that may be \<open>undefined\<close> is an \<open>option\<close>. \<open>template_text\<close> is such a value in
  a template literal or as a computed property key, \<open>truthy\<close> is its truthiness (\<open>undefined\<close>
  and the empty string are falsy), and \<open>column row i\<close> is the array read \<open>row[i]\<close>.
\<close>

definition template_text :: "string option \<Rightarrow> string" where
  "template_text v = (case v of None \<Rightarrow> ''undefined'' | Some s \<Rightarrow> s)"

definition truthy :: "string option \<Rightarrow> bool" where
  "truthy s = (case s of None \<Rightarrow> False | Some v \<Rightarrow> v \<noteq> [])"

definition column :: "string list \<Rightarrow> nat \<Rightarrow> string option" where
  "column row i = (if i < length row then Some (row ! i) else None)"


text \<open>
  \<open>crypto.createHash('md5')\<close> belongs to the Node runtime, not to this repository. The
  digest \<open>createHash('md5').update(x).digest('hex')\<close> is a parameter \<open>md5_hex\<close> of every
  function that hashes; a hash object that is updated twice digests the concatenation of
  the two updates.
\<close>

subsection \<open>The MD5 function of RFC 1321\<close>

text \<open>
  The function that the runtime computes is fixed by RFC 1321. \<open>md5\<close> is that function on
  byte strings, with the digest in lowercase hexadecimal: the message is padded with the
  byte 128, zeros and its length in bits as eight little-endian bytes, cut into blocks of
  sixteen little-endian 32-bit words, and each block goes through the sixty-four rounds of
  \<open>md5_step\<close> from the chaining value of the block before. The properties of
  \<open>generateHash\<close> hold for any digest function; \<open>md5\<close> is what the parameter \<open>md5_hex\<close> is
  at run time, and serves to evaluate \<open>generateHash\<close> on concrete credentials.
\<close>

definition md5_K :: "32 word list" where
  "md5_K =
    [0xd76aa478, 0xe8c7b756, 0x242070db, 0xc1bdceee,
     0xf57c0faf, 0x4787c62a, 0xa8304613, 0xfd469501,
     0x698098d8, 0x8b44f7af, 0xffff5bb1, 0x895cd7be,
     0x6b901122, 0xfd987193, 0xa679438e, 0x49b40821,
     0xf61e2562, 0xc040b340, 0x265e5a51, 0xe9b6c7aa,
     0xd62f105d, 0x02441453, 0xd8a1e681, 0xe7d3fbc8,
     0x21e1cde6, 0xc33707d6, 0xf4d50d87, 0x455a14ed,
     0xa9e3e905, 0xfcefa3f8, 0x676f02d9, 0x8d2a4c8a,
     0xfffa3942, 0x8771f681, 0x6d9d6122, 0xfde5380c,
     0xa4beea44, 0x4bdecfa9, 0xf6bb4b60, 0xbebfbc70,
     0x289b7ec6, 0xeaa127fa, 0xd4ef3085, 0x04881d05,
     0xd9d4d039, 0xe6db99e5, 0x1fa27cf8, 0xc4ac5665,
     0xf4292244, 0x432aff97, 0xab9423a7, 0xfc93a039,
     0x655b59c3, 0x8f0ccc92, 0xffeff47d, 0x85845dd1,
     0x6fa87e4f, 0xfe2ce6e0, 0xa3014314, 0x4e0811a1,
     0xf7537e82, 0xbd3af235, 0x2ad7d2bb, 0xeb86d391]"

definition md5_S :: "nat list" where
  "md5_S =
    [7, 12, 17, 22, 7, 12, 17, 22, 7, 12, 17, 22, 7, 12, 17, 22,
     5, 9, 14, 20, 5, 9, 14, 20, 5, 9, 14, 20, 5, 9, 14, 20,
     4, 11, 16, 23, 4, 11, 16, 23, 4, 11, 16, 23, 4, 11, 16, 23,
     6, 10, 15, 21, 6, 10, 15, 21, 6, 10, 15, 21, 6, 10, 15, 21]"

definition md5_rounds :: "nat list" where
  "md5_rounds = [0..<64]"

definition rotl :: "32 word \<Rightarrow> nat \<Rightarrow> 32 word" where
  "rotl x c = push_bit c x OR drop_bit (32 - c) x"

definition md5_step ::
  "32 word list \<Rightarrow> 32 word \<times> 32 word \<times> 32 word \<times> 32 word \<Rightarrow> nat
     \<Rightarrow> 32 word \<times> 32 word \<times> 32 word \<times> 32 word" where
  "md5_step M st i =
     (case st of (A, B, C, D) \<Rightarrow>
        let F = (if i < 16 then (B AND C) OR (NOT B AND D)
                 else if i < 32 then (D AND B) OR (NOT D AND C)
                 else if i < 48 then B XOR C XOR D
                 else C XOR (B OR NOT D));
            g = (if i < 16 then i
                 else if i < 32 then (5 * i + 1) mod 16
                 else if i < 48 then (3 * i + 5) mod 16
                 else (7 * i) mod 16);
            F = F + A + md5_K ! i + M ! g
        in (D, B + rotl F (md5_S ! i), B, C))"

definition md5_block ::
  "32 word \<times> 32 word \<times> 32 word \<times> 32 word \<Rightarrow> 32 word list
     \<Rightarrow> 32 word \<times> 32 word \<times> 32 word \<times> 32 word" where
  "md5_block h M =
     (case h of (a0, b0, c0, d0) \<Rightarrow>
        case foldl (md5_step M) (a0, b0, c0, d0) md5_rounds of (A, B, C, D) \<Rightarrow>
          (a0 + A, b0 + B, c0 + C, d0 + D))"

definition md5_pad :: "nat list \<Rightarrow> nat list" where
  "md5_pad bs =
     take (((length bs + 8) div 64 + 1) * 64 - 8) (bs @ 128 # replicate 64 0)
       @ map (\<lambda>k. (8 * length bs) div 256 ^ k mod 256) [0, 1, 2, 3, 4, 5, 6, 7]"

fun md5_words :: "nat list \<Rightarrow> 32 word list" where
  "md5_words (a # b # c # d # rest) =
     of_nat (a + 256 * b + 65536 * c + 16777216 * d) # md5_words rest"
| "md5_words rest = []"

fun md5_chunks :: "32 word list \<Rightarrow> 32 word list list" where
  "md5_chunks (w0 # w1 # w2 # w3 # w4 # w5 # w6 # w7 # w8 # w9 # w10 # w11 # w12 # w13 # w14
       # w15 # rest) =
     [w0, w1, w2, w3, w4, w5, w6, w7, w8, w9, w10, w11, w12, w13, w14, w15] # md5_chunks rest"
| "md5_chunks rest = []"

definition hex_byte :: "nat \<Rightarrow> string" where
  "hex_byte b = [''0123456789abcdef'' ! (b div 16), ''0123456789abcdef'' ! (b mod 16)]"

definition md5_digest :: "32 word \<times> 32 word \<times> 32 word \<times> 32 word \<Rightarrow> string" where
  "md5_digest h =
     (case h of (a, b, c, d) \<Rightarrow>
        concat (map (\<lambda>w. concat (map (\<lambda>k. hex_byte (unat w div 256 ^ k mod 256)) [0, 1, 2, 3]))
                 [a, b, c, d]))"

definition md5 :: "string \<Rightarrow> string" where
  "md5 str =
     md5_digest (foldl md5_block (0x67452301, 0xefcdab89, 0x98badcfe, 0x10325476)
                   (md5_chunks (md5_words (md5_pad (map of_char str)))))"

section \<open>generateHash and escapeSqlIdentifier\<close>

definition generateHash :: "(string \<Rightarrow> string) \<Rightarrow> string \<Rightarrow> string \<Rightarrow> Buffer \<Rightarrow> string" where
  "generateHash md5_hex username pw salt =
     (let hash = (\<lambda>str. md5_hex str);
          shadow = hash (pw @ username);
          result = [];
          result = result @ shadow;
          result = result @ salt
      in ''md5'' @ md5_hex result)"

definition dquote :: char where
  "dquote = CHR 0x22"

definition NUL :: char where
  "NUL = CHR 0x00"

text \<open>\<open>str.replace(/["\0]/g, '""')\<close>: every double quote and every NUL becomes two double quotes.\<close>

definition replace_quote_or_NUL :: "string \<Rightarrow> string" where
  "replace_quote_or_NUL str =
     concat (map (\<lambda>c. if c = dquote \<or> c = NUL then [dquote, dquote] else [c]) str)"

definition escapeSqlIdentifier :: "string \<Rightarrow> string" where
  "escapeSqlIdentifier str = [dquote] @ replace_quote_or_NUL str @ [dquote]"

text \<open>
  The un-escaping that the specification's round-trip property describes (it is not a
  function of the source): strip the outer double quotes, then collapse every doubled
  double quote, reading left to right.
\<close>

definition strip_outer_quotes :: "string \<Rightarrow> string" where
  "strip_outer_quotes s = butlast (tl s)"

fun collapse_doubled_quotes :: "string \<Rightarrow> string" where
  "collapse_doubled_quotes (a # b # cs) =
     (if a = dquote \<and> b = dquote then dquote # collapse_doubled_quotes cs
      else a # collapse_doubled_quotes (b # cs))"
| "collapse_doubled_quotes cs = cs"

definition unescape_spec :: "string \<Rightarrow> string" where
  "unescape_spec s = collapse_doubled_quotes (strip_outer_quotes s)"

section \<open>Data of the type-introspection pipeline\<close>

record TypeField =
  name :: string
  tableOID :: int
  columnAttrNumber :: int
  typeOID :: int
  typeSize :: int
  typeModifier :: int
  formatCode :: int

text \<open>
  \<open>IParseError\<close>: the fields are copied from a server error payload, whose field codes
  may be absent, or come from a caught exception; an absent field is \<open>None\<close>.
\<close>

record IParseError =
  errorCode :: "string option"
  hint :: "string option"
  message :: "string option"
  position :: "string option"

text \<open>
  \<open>TypeData\<close> is \<open>{fields, params} | IParseError\<close>; a parameter \<open>{oid}\<close> is its oid. (The
  record field is \<open>fields'\<close> because \<open>fields\<close> is a name of the record package.)
\<close>

record TypeDescription =
  fields' :: "TypeField list"
  params :: "int list"

type_synonym TypeData = "IParseError + TypeDescription"

text \<open>A thrown value; the source reads only its \<open>message\<close>.\<close>

datatype exn = JsError (exn_message: "string option")

definition TypeError :: exn where
  "TypeError = JsError (Some ''TypeError'')"

section \<open>The message channel\<close>

text \<open>
  Modelled from the spec: the \<open>AsyncQueue\<close> and the message catalogue \<open>messages\<close> of the
  \<open>wire\<close> package are not among the sources. The spec gives the channel as
  \<open>connect(options)\<close>, \<open>send(messageType, payload)\<close> (enqueue) and
  \<open>reply(...expectedMessageTypes)\<close> (suspend until the next message arrives; if it is not
  one of the expected types, the operation fails), and lists the messages consumed. The
  payloads carry the properties that the source reads.
\<close>

datatype PreparedObjectType = Portal | Statement

datatype client_msg =
    StartupMessage "(string \<times> string) list"
  | PasswordMessage string
  | SASLInitialResponseMsg string nat string
  | SASLResponseMsg string
  | QueryMsg string
  | ParseMsg string string "int list"
  | DescribeMsg string PreparedObjectType
  | CloseMsg PreparedObjectType string
  | FlushMsg
  | SyncMsg

datatype msg_kind =
    readyForQuery | authenticationCleartextPassword | authenticationMD5Password
  | authenticationSASL | AuthenticationSASLContinue | authenticationSASLFinal
  | authenticationOk | parameterStatus | backendKeyData | rowDescription | dataRow
  | commandComplete | errorResponse | parseComplete | parameterDescription | noData
  | closeComplete

text \<open>
  The server's messages with the properties the source reads: \<open>trxStatus\<close>, \<open>salt\<close>,
  \<open>SASLMechanisms\<close> (read with \<open>?.\<close>, so possibly \<open>undefined\<close>), \<open>SASLData\<close> (tested with
  \<open>in\<close> on the final message, so possibly absent there), \<open>fields\<close> of a row description,
  \<open>columns\<close> of a data row (each value already as text), \<open>commandTag\<close>, the field-coded
  \<open>fields\<close> of an error response (a map from the field code), and \<open>params\<close>.
\<close>

datatype server_msg =
    ReadyForQuery string
  | CleartextPasswordRequest
  | MD5PasswordRequest Buffer
  | SASLRequest "string list option"
  | SASLContinue string
  | SASLFinal "string option"
  | AuthenticationOk
  | ParameterStatus string string
  | BackendKeyData int int
  | RowDescription "TypeField list"
  | DataRow "string list"
  | CommandComplete string
  | ErrorResponse "char \<Rightarrow> string option"
  | ParseComplete
  | ParameterDescription "int list"
  | NoData
  | CloseComplete

fun kind_of :: "server_msg \<Rightarrow> msg_kind" where
  "kind_of (ReadyForQuery t) = readyForQuery"
| "kind_of CleartextPasswordRequest = authenticationCleartextPassword"
| "kind_of (MD5PasswordRequest s) = authenticationMD5Password"
| "kind_of (SASLRequest ms) = authenticationSASL"
| "kind_of (SASLContinue d) = AuthenticationSASLContinue"
| "kind_of (SASLFinal d) = authenticationSASLFinal"
| "kind_of AuthenticationOk = authenticationOk"
| "kind_of (ParameterStatus k v) = parameterStatus"
| "kind_of (BackendKeyData p k) = backendKeyData"
| "kind_of (RowDescription fs) = rowDescription"
| "kind_of (DataRow cs) = dataRow"
| "kind_of (CommandComplete t) = commandComplete"
| "kind_of (ErrorResponse f) = errorResponse"
| "kind_of ParseComplete = parseComplete"
| "kind_of (ParameterDescription ps) = parameterDescription"
| "kind_of NoData = noData"
| "kind_of CloseComplete = closeComplete"

text \<open>
  The state of one run: \<open>events\<close> are the operations performed so far, in order (the
  calls on the channel and the lines written with \<open>console.error\<close>); \<open>inbox\<close> are the
  messages the server sends, in order; \<open>connectError\<close> is the failure of \<open>connect\<close>, if it
  fails; \<open>rejection\<close> is the failure the channel raises for a message that is not of an
  expected kind. Which failure that is, is the channel's business, so it is a field of
  the state and every theorem holds for every choice of it; a message that it maps to
  \<open>None\<close> is passed over and the wait goes on. With \<open>rejection m = Some e\<close> for every \<open>m\<close>
  the channel is the one of the spec.
\<close>

datatype event =
    Connect string int
  | Send client_msg
  | Await "msg_kind list"
  | ConsoleError string

record session =
  events :: "event list"
  inbox :: "server_msg list"
  connectError :: "exn option"
  rejection :: "server_msg \<Rightarrow> exn option"

text \<open>
  An awaited call returns a value, raises, or never resolves (\<open>Pending\<close>: the server sends
  nothing more). \<open>andThen\<close> is \<open>await\<close> followed by the rest of the function body; \<open>try_catch\<close>
  and \<open>try_finally\<close> are the statements of the language: the finalizer runs when the block
  has completed, normally or not, and a finalizer that raises replaces the block's result.
\<close>

datatype 'a outcome = Done 'a | Raised exn | Pending

type_synonym 'a action = "session \<Rightarrow> 'a outcome \<times> session"

definition ret :: "'a \<Rightarrow> 'a action" where
  "ret a q = (Done a, q)"

definition throw :: "exn \<Rightarrow> 'a action" where
  "throw e q = (Raised e, q)"

definition andThen :: "'a action \<Rightarrow> ('a \<Rightarrow> 'b action) \<Rightarrow> 'b action" where
  "andThen m k q =
     (case m q of
        (Done a, q') \<Rightarrow> k a q'
      | (Raised e, q') \<Rightarrow> (Raised e, q')
      | (Pending, q') \<Rightarrow> (Pending, q'))"

definition try_catch :: "'a action \<Rightarrow> (exn \<Rightarrow> 'a action) \<Rightarrow> 'a action" where
  "try_catch m handler q =
     (case m q of
        (Raised e, q') \<Rightarrow> handler e q'
      | (Done a, q') \<Rightarrow> (Done a, q')
      | (Pending, q') \<Rightarrow> (Pending, q'))"

definition try_finally :: "'a action \<Rightarrow> unit action \<Rightarrow> 'a action" where
  "try_finally m finalizer q =
     (case m q of
        (Pending, q') \<Rightarrow> (Pending, q')
      | (r, q') \<Rightarrow>
          (case finalizer q' of
             (Done u, q'') \<Rightarrow> (r, q'')
           | (Raised e, q'') \<Rightarrow> (Raised e, q'')
           | (Pending, q'') \<Rightarrow> (Pending, q'')))"

text \<open>
  \<open>connect\<close> receives the whole options object; the model records the host and the port
  it connects to.
\<close>

definition connect :: "string \<Rightarrow> int \<Rightarrow> unit action" where
  "connect h p q =
     ((case connectError q of None \<Rightarrow> Done () | Some e \<Rightarrow> Raised e),
      q\<lparr>events := events q @ [Connect h p]\<rparr>)"

definition send :: "client_msg \<Rightarrow> unit action" where
  "send m q = (Done (), q\<lparr>events := events q @ [Send m]\<rparr>)"

fun receive ::
  "(server_msg \<Rightarrow> exn option) \<Rightarrow> msg_kind list \<Rightarrow> server_msg list
     \<Rightarrow> server_msg outcome \<times> server_msg list" where
  "receive rej expected [] = (Pending, [])"
| "receive rej expected (m # ms) =
     (if kind_of m \<in> set expected then (Done m, ms)
      else (case rej m of Some e \<Rightarrow> (Raised e, ms) | None \<Rightarrow> receive rej expected ms))"

definition reply :: "msg_kind list \<Rightarrow> server_msg action" where
  "reply expected q =
     (case receive (rejection q) expected (inbox q) of
        (r, rest) \<Rightarrow> (r, q\<lparr>events := events q @ [Await expected], inbox := rest\<rparr>))"

section \<open>runQuery\<close>

text \<open>
  The \<open>while (true)\<close> loop of \<open>runQuery\<close>: every round awaits one reply, which takes at
  least one message from the inbox, so the loop ends when the inbox does. A reply that is
  neither a command-complete nor a data row has no \<open>columns\<close> to map over; \<open>reply\<close> never
  returns one here. (The \<open>debug\<close> output of the source is not modelled.)
\<close>

function runQuery_rows :: "string list list \<Rightarrow> string list list action" where
  "runQuery_rows resultRows q =
     (case reply [dataRow, commandComplete] q of
        (Done (CommandComplete commandTag), q') \<Rightarrow> (Done resultRows, q')
      | (Done (DataRow columns), q') \<Rightarrow> runQuery_rows (resultRows @ [columns]) q'
      | (Done other, q') \<Rightarrow> (Raised TypeError, q')
      | (Raised e, q') \<Rightarrow> (Raised e, q')
      | (Pending, q') \<Rightarrow> (Pending, q'))"
  by pat_completeness auto
termination
proof -
  have shrink: "length ms' < length ms" if "receive rej ks ms = (Done m, ms')"
    for rej ks ms m ms'
    using that by (induction ms) (auto split: if_splits option.splits)
  have replied: "length (inbox q') < length (inbox q)" if "(Done m, q') = reply ks q"
    for ks q m q'
    using that [symmetric] by (auto simp: reply_def split: prod.splits dest: shrink)
  show ?thesis
    by (relation "measure (\<lambda>(resultRows, q). length (inbox q))") (auto dest: replied)
qed

declare runQuery_rows.simps [simp del]

definition runQuery :: "string \<Rightarrow> string list list action" where
  "runQuery qtext =
     andThen (send (QueryMsg qtext)) (\<lambda>sent.
     andThen (reply [rowDescription]) (\<lambda>result.
     runQuery_rows []))"

section \<open>getTypeData\<close>

definition getTypeData :: "(string \<Rightarrow> string) \<Rightarrow> string \<Rightarrow> TypeData action" where
  "getTypeData md5_hex qtext =
     (let uniqueName = md5_hex qtext in
      andThen (send (ParseMsg uniqueName qtext [])) (\<lambda>sent.
      andThen (send (DescribeMsg uniqueName Statement)) (\<lambda>sent.
      andThen (send (CloseMsg Statement uniqueName)) (\<lambda>sent.
      andThen (send FlushMsg) (\<lambda>sent.
      andThen (reply [errorResponse, parseComplete]) (\<lambda>parseResult.
      andThen (send SyncMsg) (\<lambda>sent.
        (case parseResult of
           ErrorResponse errorFields \<Rightarrow>
             ret (Inl \<lparr>errorCode = errorFields CHR ''R'',
                        hint = errorFields CHR ''H'',
                        message = errorFields CHR ''M'',
                        position = errorFields CHR ''P''\<rparr>)
         | other \<Rightarrow>
             andThen (reply [parameterDescription, noData]) (\<lambda>paramsResult.
             let ps = (case paramsResult of ParameterDescription ps \<Rightarrow> ps | other \<Rightarrow> []) in
             andThen (reply [rowDescription, noData]) (\<lambda>fieldsResult.
             let fs = (case fieldsResult of RowDescription fs \<Rightarrow> fs | other \<Rightarrow> []) in
             andThen (reply [closeComplete]) (\<lambda>closed.
             ret (Inr \<lparr>fields' = fs, params = ps\<rparr>))))))))))))"

section \<open>explainQuery\<close>

text \<open>
  The text handed to \<open>runQuery\<close>: \<open>explain execute "<name>"\<close>, then one \<open>null\<close> for each
  parameter in parentheses unless there is no parameter, then a semicolon.
\<close>

definition explainQuery_text :: "string \<Rightarrow> nat \<Rightarrow> string" where
  "explainQuery_text uniqueName len =
     (let nulls = replicate len ''null'' in
      ''explain execute '' @ escapeSqlIdentifier uniqueName
        @ (if length nulls = 0 then [] else '' ('' @ join '', '' nulls @ '')'') @ '';'')"

text \<open>The \<open>try\<close> block, the \<open>catch\<close> clause and the \<open>finally\<close> clause of \<open>explainQuery\<close>.\<close>

definition explainQuery_try ::
  "string \<Rightarrow> TypeDescription \<Rightarrow> server_msg \<Rightarrow> (IParseError + string option list) action" where
  "explainQuery_try uniqueName typeData parseResult =
     (case parseResult of
        ErrorResponse errorFields \<Rightarrow>
          ret (Inl \<lparr>errorCode = errorFields CHR ''R'',
                     hint = errorFields CHR ''H'',
                     message = errorFields CHR ''M'',
                     position = errorFields CHR ''P''\<rparr>)
      | other \<Rightarrow>
          andThen (runQuery (explainQuery_text uniqueName (length (params typeData))))
            (\<lambda>explain. ret (Inr (map (\<lambda>e. column e 0) explain))))"

definition explainQuery_catch :: "exn \<Rightarrow> (IParseError + string option list) action" where
  "explainQuery_catch e q =
     (Done (Inl \<lparr>errorCode = Some ''_ERROR'', hint = None, message = exn_message e,
                  position = None\<rparr>),
      q\<lparr>events := events q @ [ConsoleError ''Error occurred whilst testing query:'']\<rparr>)"

definition explainQuery_finally :: "string \<Rightarrow> unit action" where
  "explainQuery_finally uniqueName =
     andThen (send (CloseMsg Statement uniqueName)) (\<lambda>sent.
     andThen (send FlushMsg) (\<lambda>sent.
     andThen (send SyncMsg) (\<lambda>sent.
     andThen (reply [closeComplete]) (\<lambda>closed. ret ()))))"

definition explainQuery ::
  "(string \<Rightarrow> string) \<Rightarrow> string \<Rightarrow> TypeData \<Rightarrow> (IParseError + string option list) action" where
  "explainQuery md5_hex qtext typeData =
     (case typeData of
        Inl parseError \<Rightarrow> ret (Inl parseError)
      | Inr described \<Rightarrow>
          (let uniqueName = md5_hex qtext in
           andThen (send (ParseMsg uniqueName qtext [])) (\<lambda>sent.
           andThen (send FlushMsg) (\<lambda>sent.
           andThen (reply [errorResponse, parseComplete]) (\<lambda>parseResult.
           try_finally
             (try_catch (explainQuery_try uniqueName described parseResult) explainQuery_catch)
             (explainQuery_finally uniqueName))))))"

section \<open>startup\<close>

record options =
  host :: string
  password :: "string option"
  port :: int
  user :: string
  dbName :: string
  ssl :: "bool option"

text \<open>
  Modelled from the spec: the SASL helper (\<open>sasl-helpers.js\<close>) is not among the sources.
  The spec gives it as \<open>createInitialResponse() \<rightarrow> (clientNonce, responseBytes)\<close>,
  \<open>createContinueResponse(password, clientNonce, serverChallengeData) \<rightarrow> (responseBytes,
  expectedServerSignature)\<close> and \<open>verifyFinalMessage(serverFinalData, expectedSignature)\<close>,
  which fails if mismatched. The three are parameters; each may raise.
\<close>

record sasl_helpers =
  createInitialSASLResponse :: "exn + string \<times> string"
  createClientSASLContinueResponse ::
    "string \<Rightarrow> string \<Rightarrow> string option \<Rightarrow> exn + string \<times> string"
  checkServerFinalMessage :: "string \<Rightarrow> string \<Rightarrow> exn option"

text \<open>The loop that drains parameter-status and backend-key-data until ready-for-query.\<close>

function startup_drain :: "unit action" where
  "startup_drain q =
     (case reply [parameterStatus, backendKeyData, readyForQuery] q of
        (Done (ReadyForQuery trxStatus), q') \<Rightarrow> (Done (), q')
      | (Done other, q') \<Rightarrow> startup_drain q'
      | (Raised e, q') \<Rightarrow> (Raised e, q')
      | (Pending, q') \<Rightarrow> (Pending, q'))"
  by pat_completeness auto
termination
proof -
  have shrink: "length ms' < length ms" if "receive rej ks ms = (Done m, ms')"
    for rej ks ms m ms'
    using that by (induction ms) (auto split: if_splits option.splits)
  have replied: "length (inbox q') < length (inbox q)" if "(Done m, q') = reply ks q"
    for ks q m q'
    using that [symmetric] by (auto simp: reply_def split: prod.splits dest: shrink)
  show ?thesis
    by (relation "measure (\<lambda>q. length (inbox q))") (auto dest: replied)
qed

declare startup_drain.simps [simp del]

definition startupParams :: "options \<Rightarrow> (string \<times> string) list" where
  "startupParams opts =
     [(''user'', user opts), (''database'', dbName opts),
      (''client_encoding'', [CHR 0x27] @ ''utf-8'' @ [CHR 0x27]),
      (''application_name'', ''pgtyped'')]"

text \<open>The branch \<open>if ('SASLMechanisms' in result)\<close>.\<close>

definition startup_sasl :: "sasl_helpers \<Rightarrow> string \<Rightarrow> string list option \<Rightarrow> unit action" where
  "startup_sasl sasl pw SASLMechanisms =
     (if (case SASLMechanisms of None \<Rightarrow> False | Some ms \<Rightarrow> ''SCRAM-SHA-256'' \<notin> set ms)
      then throw (JsError (Some ''SASL: Only mechanism SCRAM-SHA-256 is currently supported''))
      else
        (case createInitialSASLResponse sasl of
           Inl e \<Rightarrow> throw e
         | Inr (clientNonce, initialSASLResponse) \<Rightarrow>
             andThen (send (SASLInitialResponseMsg ''SCRAM-SHA-256''
                        (length initialSASLResponse) initialSASLResponse)) (\<lambda>sent.
             andThen (reply [AuthenticationSASLContinue]) (\<lambda>SASLContinueResult.
             (case createClientSASLContinueResponse sasl pw clientNonce
                     (case SASLContinueResult of SASLContinue d \<Rightarrow> Some d | other \<Rightarrow> None) of
                Inl e \<Rightarrow> throw e
              | Inr (SASLContinueResponse, calculatedServerSignature) \<Rightarrow>
                  andThen (send (SASLResponseMsg SASLContinueResponse)) (\<lambda>sent.
                  andThen (reply [authenticationSASLFinal]) (\<lambda>finalSASL.
                  andThen (reply [authenticationOk]) (\<lambda>ok.
                  andThen startup_drain (\<lambda>ready.
                  (case finalSASL of
                     SASLFinal (Some d) \<Rightarrow>
                       (case checkServerFinalMessage sasl d calculatedServerSignature of
                          Some e \<Rightarrow> throw e
                        | None \<Rightarrow> ret ())
                   | other \<Rightarrow> throw (JsError (Some ''SASL: No final SASL data returned''))))))))))))"

text \<open>The \<open>try\<close> block of \<open>startup\<close>.\<close>

definition startup_try ::
  "(string \<Rightarrow> string) \<Rightarrow> sasl_helpers \<Rightarrow> options \<Rightarrow> unit action" where
  "startup_try md5_hex sasl opts =
     andThen (connect (host opts) (port opts)) (\<lambda>connected.
     andThen (send (StartupMessage (startupParams opts))) (\<lambda>sent.
     andThen (reply [readyForQuery, authenticationCleartextPassword,
                     authenticationMD5Password, authenticationSASL]) (\<lambda>result.
     (case result of
        ReadyForQuery trxStatus \<Rightarrow> ret ()
      | other \<Rightarrow>
          if \<not> truthy (password opts)
          then throw (JsError (Some ''password required for hash auth''))
          else
            (let pw = the (password opts) in
             case result of
               SASLRequest SASLMechanisms \<Rightarrow> startup_sasl sasl pw SASLMechanisms
             | other \<Rightarrow>
                 (let pw = (case result of
                              MD5PasswordRequest salt \<Rightarrow> generateHash md5_hex (user opts) pw salt
                            | other \<Rightarrow> pw) in
                  andThen (send (PasswordMessage pw)) (\<lambda>sent.
                  andThen (reply [authenticationOk]) (\<lambda>ok.
                  andThen (reply [readyForQuery]) (\<lambda>ready. ret ())))))))))"

text \<open>
  \<open>startup\<close> returns, or its \<open>catch\<close> clause writes \<open>Connection failed: ...\<close> to the console
  and ends the process with \<open>process.exit(1)\<close>, or it waits for a message that never comes.
\<close>

datatype startup_outcome = Returned | ProcessExit nat | NeverResolves

definition startup ::
  "(string \<Rightarrow> string) \<Rightarrow> sasl_helpers \<Rightarrow> options \<Rightarrow> session \<Rightarrow> startup_outcome \<times> session" where
  "startup md5_hex sasl opts q =
     (case startup_try md5_hex sasl opts q of
        (Done u, q') \<Rightarrow> (Returned, q')
      | (Raised e, q') \<Rightarrow>
          (ProcessExit 1,
           q'\<lparr>events := events q'
                 @ [ConsoleError (''Connection failed: '' @ template_text (exn_message e))]\<rparr>)
      | (Pending, q') \<Rightarrow> (NeverResolves, q'))"

section \<open>reduceTypeRows\<close>

datatype TypeCategory = ARRAY | BOOLEAN | COMPOSITE | DATE_TIME | ENUM | GEOMETRIC
  | NETWORK_ADDRESS | NUMERIC | PSEUDO | STRING | TIMESPAN | USERDEFINED | BITSTRING | UNKNOWN


text \<open>
  Modelled from the spec: \<open>MappableType\<close>, \<open>isEnum\<close> and \<open>DatabaseTypeKind\<close> are declared in
  \<open>type.js\<close>, which is not among the sources. The spec gives \<open>MappableType\<close> as the variant
  \<open>Scalar{name}\<close>, \<open>Enum{name, ordered sequence of labels}\<close>, \<open>Array{name, elementType}\<close>;
  \<open>isEnum\<close> tests for the second. \<open>reduceTypeRows\<close> builds a scalar as the bare type name,
  an enum as \<open>{name, enumValues}\<close> and an array as \<open>{name, elementType}\<close>. The value of
  \<open>DatabaseTypeKind.Enum\<close>, which marks the rows of an enum, is a parameter of
  \<open>reduceTypeRows\<close>.
\<close>

datatype MappableType =
    Scalar string
  | EnumType string (enumValues: "string list")
  | ArrayType string MappableType





section \<open>getComments and the assembly of getTypes\<close>

text \<open>
  \<open>Number(x)\<close> is a built-in of the language and a parameter \<open>Number\<close> of \<open>getComments\<close>:
  it reads the text of an integer column, and \<open>None\<close> stands for \<open>NaN\<close>.
\<close>

datatype ColumnComment =
  ColumnComment (commentTableOID: "int option") (commentColumnAttrNumber: "int option")
    (commentText: "string option")

definition show_number :: "int option \<Rightarrow> string" where
  "show_number n = (case n of None \<Rightarrow> ''NaN'' | Some i \<Rightarrow> show_int i)"

definition commentMatcher :: "TypeField \<Rightarrow> string" where
  "commentMatcher f =
     ''(objoid='' @ show_int (tableOID f) @ '' and objsubid='' @ show_int (columnAttrNumber f)
       @ '')''"

definition commentQuery :: "string \<Rightarrow> string" where
  "commentQuery selection =
     ''SELECT\<newline>      objoid, objsubid, description\<newline>     FROM pg_description WHERE ''
       @ selection @ '';''"

definition getComments ::
  "(string option \<Rightarrow> int option) \<Rightarrow> TypeField list \<Rightarrow> ColumnComment list action" where
  "getComments Number tfields =
     (let columnFields = filter (\<lambda>f. columnAttrNumber f > 0) tfields in
      if length columnFields = 0 then ret []
      else
        (let matchers = map commentMatcher columnFields;
             selection = join '' or '' matchers in
         andThen (runQuery (commentQuery selection)) (\<lambda>descriptionRows.
         ret (map (\<lambda>row. ColumnComment (Number (column row 0)) (Number (column row 1))
                            (column row 2))
                descriptionRows))))"

text \<open>
  \<open>getTypes\<close> runs \<open>getTypeData\<close>, \<open>explainQuery\<close>, the catalogue query, \<open>getComments\<close> and
  the \<open>pg_attribute\<close> query, in this order, and assembles its result from their rows. The
  definitions below are its local constants \<open>attrMatcher\<close>, \<open>attrSelection\<close>, the text of
  the \<open>pg_attribute\<close> query that it hands to \<open>runQuery\<close>, \<open>attrMap\<close>, \<open>getAttid\<close>,
  \<open>commentMap\<close> and \<open>returnTypes\<close>, as functions of what they are computed from.
\<close>

definition attrMatcher :: "TypeField \<Rightarrow> string" where
  "attrMatcher f =
     ''(attrelid = '' @ show_int (tableOID f) @ '' and attnum = '' @ show_int (columnAttrNumber f)
       @ '')''"

definition attrSelection :: "TypeField list \<Rightarrow> string" where
  "attrSelection tfields =
     (if length tfields > 0 then join '' or '' (map attrMatcher tfields) else ''false'')"

definition attributeQuery :: "TypeField list \<Rightarrow> string" where
  "attributeQuery tfields =
     ''SELECT\<newline>      (attrelid || ':' || attnum) AS attid, attname, attnotnull\<newline>     FROM pg_attribute WHERE ''
       @ attrSelection tfields @ '';''"

definition attrMap :: "string list list \<Rightarrow> (string \<rightharpoonup> string option \<times> bool)" where
  "attrMap attributeRows =
     foldl (\<lambda>acc row. acc(template_text (column row 0)
                           \<mapsto> (column row 1, column row 2 \<noteq> Some ''t'')))
       Map.empty attributeRows"

definition getAttid :: "TypeField \<Rightarrow> string" where
  "getAttid col = show_int (tableOID col) @ '':'' @ show_int (columnAttrNumber col)"

definition commentMap :: "ColumnComment list \<Rightarrow> (string \<rightharpoonup> string)" where
  "commentMap commentRows =
     foldl (\<lambda>m c. m(show_number (commentTableOID c) @ '':''
                       @ show_number (commentColumnAttrNumber c) := commentText c))
       Map.empty commentRows"

text \<open>
  An entry of \<open>returnTypes\<close>: the spread of \<open>attrMap[getAttid(f)]\<close> gives \<open>columnName\<close> and
  \<open>nullable\<close> when the key is in \<open>attrMap\<close> and nothing otherwise; \<open>comment\<close> is there when
  the comment is truthy.
\<close>

record ReturnType =
  returnName :: string
  columnName :: "string option"
  type :: "MappableType option"
  nullable :: "bool option"
  comment :: "string option"

definition returnTypes ::
  "TypeField list \<Rightarrow> (string \<rightharpoonup> string option \<times> bool) \<Rightarrow> (string \<rightharpoonup> string)
     \<Rightarrow> (string \<rightharpoonup> MappableType) \<Rightarrow> ReturnType list" where
  "returnTypes tfields attrs comments typeMap =
     map (\<lambda>f. \<lparr>returnName = name f,
                columnName = (case attrs (getAttid f) of None \<Rightarrow> None
                              | Some (attname, isNullable) \<Rightarrow> attname),
                type = typeMap (show_int (typeOID f)),
                nullable = (case attrs (getAttid f) of None \<Rightarrow> None
                            | Some (attname, isNullable) \<Rightarrow> Some isNullable),
                comment = (if truthy (comments (getAttid f)) then comments (getAttid f)
                           else None)\<rparr>)
       tfields"

section \<open>Vocabulary of the properties\<close>

text \<open>The events that are awaits, and the query texts among the events.\<close>

definition only_awaits :: "event list \<Rightarrow> bool" where
  "only_awaits evs = list_all (\<lambda>ev. case ev of Await ks \<Rightarrow> True | other \<Rightarrow> False) evs"

definition sent_queries :: "event list \<Rightarrow> string list" where
  "sent_queries evs =
     concat (map (\<lambda>ev. case ev of Send (QueryMsg qtext) \<Rightarrow> [qtext] | other \<Rightarrow> []) evs)"





text \<open>A text without parentheses: what stands between the parentheses of a predicate.\<close>

definition group_body :: "string \<Rightarrow> bool" where
  "group_body b = (CHR ''('' \<notin> set b \<and> CHR '')'' \<notin> set b)"

text \<open>What stands between the parentheses of the predicate \<open>commentMatcher f\<close>.\<close>

definition comment_body :: "TypeField \<Rightarrow> string" where
  "comment_body f =
     ''objoid='' @ show_int (tableOID f) @ '' and objsubid='' @ show_int (columnAttrNumber f)"

section \<open>Example values\<close>

text \<open>
  Concrete channels, payloads, fields and rows on which the functions are run further
  down. \<open>reject_all\<close> is the channel of the spec, which fails on every message that is not
  expected; \<open>reject_errors\<close> fails on an unexpected error-response with the server's
  message and passes over any other unexpected message.
\<close>

definition reject_all :: "server_msg \<Rightarrow> exn option" where
  "reject_all m = Some (JsError (Some ''unexpected message''))"

definition reject_errors :: "server_msg \<Rightarrow> exn option" where
  "reject_errors m =
     (case m of ErrorResponse errorFields \<Rightarrow> Some (JsError (errorFields CHR ''M''))
      | other \<Rightarrow> None)"

definition syntax_error :: "char \<Rightarrow> string option" where
  "syntax_error = [CHR ''R'' \<mapsto> ''scanner_yyerror'', CHR ''M'' \<mapsto> ''syntax error at or near selct'',
                   CHR ''P'' \<mapsto> ''1'']"

definition permission_denied :: "char \<Rightarrow> string option" where
  "permission_denied = [CHR ''R'' \<mapsto> ''aclcheck_error'',
                        CHR ''M'' \<mapsto> ''permission denied for table user_emails'']"

definition shutdown_notice :: "char \<Rightarrow> string option" where
  "shutdown_notice = [CHR ''M'' \<mapsto> ''terminating connection due to administrator command'']"

definition id_field :: TypeField where
  "id_field = \<lparr>name = ''id'', tableOID = 16385, columnAttrNumber = 1, typeOID = 23,
                typeSize = 4, typeModifier = - 1, formatCode = 0\<rparr>"

definition count_field :: TypeField where
  "count_field = \<lparr>name = ''count'', tableOID = 0, columnAttrNumber = 0, typeOID = 20,
                   typeSize = 8, typeModifier = - 1, formatCode = 0\<rparr>"

definition Number_of_oid :: "string option \<Rightarrow> int option" where
  "Number_of_oid s = (if s = Some ''16385'' then Some 16385 else if s = Some ''1'' then Some 1
                     else None)"



definition example_options :: options where
  "example_options = \<lparr>host = ''localhost'', password = Some ''secret'', port = 5432,
                       user = ''postgres'', dbName = ''test'', ssl = None\<rparr>"

definition example_sasl :: sasl_helpers where
  "example_sasl =
     \<lparr>createInitialSASLResponse = Inr (''nonce'', ''n,,n=*,r=nonce''),
      createClientSASLContinueResponse =
        (\<lambda>pw clientNonce SASLData. Inr (''c=biws,r=nonce,p=proof'', ''signature'')),
      checkServerFinalMessage =
        (\<lambda>SASLData signature. if SASLData = ''v='' @ signature then None
                                else Some (JsError (Some ''SASL: Server signature does not match'')))\<rparr>"

section \<open>The MD5 digest on concrete inputs\<close>

text \<open>
  The digest of \<open>abc\<close> is the one of the test suite of RFC 1321. The two other inputs are
  seventy-two printable bytes each and differ in one byte (\<open>A\<close> against \<open>E\<close> at offset 21);
  their chaining values differ after the first block and coincide after the second, so that
  they have the same digest.
\<close>

lemma md5_rounds_split:
  "md5_rounds =
     [0, 1, 2, 3, 4, 5, 6, 7, 8, 9, 10, 11, 12, 13, 14, 15] @
     [16, 17, 18, 19, 20, 21, 22, 23, 24, 25, 26, 27, 28, 29, 30, 31] @
     [32, 33, 34, 35, 36, 37, 38, 39, 40, 41, 42, 43, 44, 45, 46, 47] @
     [48, 49, 50, 51, 52, 53, 54, 55, 56, 57, 58, 59, 60, 61, 62, 63]"
  by (simp add: md5_rounds_def upt_conv_Cons)

lemma replicate_64_zero:
  "replicate 64 (0::nat) =
     [0, 0, 0, 0, 0, 0, 0, 0, 0, 0, 0, 0, 0, 0, 0, 0,
      0, 0, 0, 0, 0, 0, 0, 0, 0, 0, 0, 0, 0, 0, 0, 0,
      0, 0, 0, 0, 0, 0, 0, 0, 0, 0, 0, 0, 0, 0, 0, 0,
      0, 0, 0, 0, 0, 0, 0, 0, 0, 0, 0, 0, 0, 0, 0, 0]"
  by (simp add: eval_nat_numeral)

lemma md5_chunks_abc:
  "md5_chunks (md5_words (md5_pad (map of_char
       ''abc''))) =
     [[0x80636261, 0x00000000, 0x00000000, 0x00000000, 0x00000000, 0x00000000,
      0x00000000, 0x00000000, 0x00000000, 0x00000000, 0x00000000, 0x00000000,
      0x00000000, 0x00000000, 0x00000018, 0x00000000]]"
  by (simp add: md5_pad_def replicate_64_zero)

lemma md5_rounds_abc_1_1:
  "foldl (md5_step
     [0x80636261, 0x00000000, 0x00000000, 0x00000000, 0x00000000, 0x00000000,
      0x00000000, 0x00000000, 0x00000000, 0x00000000, 0x00000000, 0x00000000,
      0x00000000, 0x00000000, 0x00000018, 0x00000000])
     (0x67452301, 0xefcdab89, 0x98badcfe, 0x10325476)
     [0, 1, 2, 3, 4, 5, 6, 7, 8, 9, 10, 11, 12, 13, 14, 15]
   = (0xdda9b9a6, 0x72aff2e0, 0xe396856b, 0xa1051895)"
  by (simp add: md5_step_def md5_K_def md5_S_def rotl_def Let_def)

lemma md5_rounds_abc_1_2:
  "foldl (md5_step
     [0x80636261, 0x00000000, 0x00000000, 0x00000000, 0x00000000, 0x00000000,
      0x00000000, 0x00000000, 0x00000000, 0x00000000, 0x00000000, 0x00000000,
      0x00000000, 0x00000000, 0x00000018, 0x00000000])
     (0xdda9b9a6, 0x72aff2e0, 0xe396856b, 0xa1051895)
     [16, 17, 18, 19, 20, 21, 22, 23, 24, 25, 26, 27, 28, 29, 30, 31]
   = (0x790a77fb, 0x726342d3, 0xa62884aa, 0x9f47e4f8)"
  by (simp add: md5_step_def md5_K_def md5_S_def rotl_def Let_def)

lemma md5_rounds_abc_1_3:
  "foldl (md5_step
     [0x80636261, 0x00000000, 0x00000000, 0x00000000, 0x00000000, 0x00000000,
      0x00000000, 0x00000000, 0x00000000, 0x00000000, 0x00000000, 0x00000000,
      0x00000000, 0x00000000, 0x00000018, 0x00000000])
     (0x790a77fb, 0x726342d3, 0xa62884aa, 0x9f47e4f8)
     [32, 33, 34, 35, 36, 37, 38, 39, 40, 41, 42, 43, 44, 45, 46, 47]
   = (0x7f2e507b, 0x7beb9700, 0x8fae6399, 0x99d9679d)"
  by (simp add: md5_step_def md5_K_def md5_S_def rotl_def Let_def)

lemma md5_rounds_abc_1_4:
  "foldl (md5_step
     [0x80636261, 0x00000000, 0x00000000, 0x00000000, 0x00000000, 0x00000000,
      0x00000000, 0x00000000, 0x00000000, 0x00000000, 0x00000000, 0x00000000,
      0x00000000, 0x00000000, 0x00000018, 0x00000000])
     (0x7f2e507b, 0x7beb9700, 0x8fae6399, 0x99d9679d)
     [48, 49, 50, 51, 52, 53, 54, 55, 56, 57, 58, 59, 60, 61, 62, 63]
   = (0x310ade8f, 0xc08226b3, 0xe484b9d8, 0x624d8cb2)"
  by (simp add: md5_step_def md5_K_def md5_S_def rotl_def Let_def)

lemma md5_block_abc_1:
  "md5_block (0x67452301, 0xefcdab89, 0x98badcfe, 0x10325476)
     [0x80636261, 0x00000000, 0x00000000, 0x00000000, 0x00000000, 0x00000000,
      0x00000000, 0x00000000, 0x00000000, 0x00000000, 0x00000000, 0x00000000,
      0x00000000, 0x00000000, 0x00000018, 0x00000000]
   = (0x98500190, 0xb04fd23c, 0x7d3f96d6, 0x727fe128)"
  unfolding md5_block_def md5_rounds_split
  by (simp only: foldl_append prod.case
      md5_rounds_abc_1_1 md5_rounds_abc_1_2
      md5_rounds_abc_1_3 md5_rounds_abc_1_4) simp

lemma md5_abc:
  "md5 ''abc''
     = ''900150983cd24fb0d6963f7d28e17f72''"
  by (simp only: md5_def md5_chunks_abc foldl_Cons foldl_Nil md5_block_abc_1)
    (simp add: md5_digest_def hex_byte_def)

lemma md5_chunks_left:
  "md5_chunks (md5_words (md5_pad (map of_char
       ''TEXTCOLLBYfGiJUETHQ4hAcKSMd5zYpgqf1YRDhkmxHkhPWptrkoyz28wnI9V0aHeAuaKnak''))) =
     [[0x54584554, 0x4c4c4f43, 0x47665942, 0x45554a69, 0x34514854, 0x4b634168,
      0x35644d53, 0x6770597a, 0x59316671, 0x6b684452, 0x6b48786d, 0x70575068,
      0x6f6b7274, 0x38327a79, 0x39496e77, 0x48613056],
      [0x61754165, 0x6b616e4b, 0x00000080, 0x00000000, 0x00000000, 0x00000000,
      0x00000000, 0x00000000, 0x00000000, 0x00000000, 0x00000000, 0x00000000,
      0x00000000, 0x00000000, 0x00000240, 0x00000000]]"
  by (simp add: md5_pad_def replicate_64_zero)

lemma md5_rounds_left_1_1:
  "foldl (md5_step
     [0x54584554, 0x4c4c4f43, 0x47665942, 0x45554a69, 0x34514854, 0x4b634168,
      0x35644d53, 0x6770597a, 0x59316671, 0x6b684452, 0x6b48786d, 0x70575068,
      0x6f6b7274, 0x38327a79, 0x39496e77, 0x48613056])
     (0x67452301, 0xefcdab89, 0x98badcfe, 0x10325476)
     [0, 1, 2, 3, 4, 5, 6, 7, 8, 9, 10, 11, 12, 13, 14, 15]
   = (0xfaae24b0, 0x7b863737, 0xe72b2441, 0x88fe9c8d)"
  by (simp add: md5_step_def md5_K_def md5_S_def rotl_def Let_def)

lemma md5_rounds_left_1_2:
  "foldl (md5_step
     [0x54584554, 0x4c4c4f43, 0x47665942, 0x45554a69, 0x34514854, 0x4b634168,
      0x35644d53, 0x6770597a, 0x59316671, 0x6b684452, 0x6b48786d, 0x70575068,
      0x6f6b7274, 0x38327a79, 0x39496e77, 0x48613056])
     (0xfaae24b0, 0x7b863737, 0xe72b2441, 0x88fe9c8d)
     [16, 17, 18, 19, 20, 21, 22, 23, 24, 25, 26, 27, 28, 29, 30, 31]
   = (0xc69724ae, 0x77a6463d, 0xf81984cd, 0x791dccdc)"
  by (simp add: md5_step_def md5_K_def md5_S_def rotl_def Let_def)

lemma md5_rounds_left_1_3:
  "foldl (md5_step
     [0x54584554, 0x4c4c4f43, 0x47665942, 0x45554a69, 0x34514854, 0x4b634168,
      0x35644d53, 0x6770597a, 0x59316671, 0x6b684452, 0x6b48786d, 0x70575068,
      0x6f6b7274, 0x38327a79, 0x39496e77, 0x48613056])
     (0xc69724ae, 0x77a6463d, 0xf81984cd, 0x791dccdc)
     [32, 33, 34, 35, 36, 37, 38, 39, 40, 41, 42, 43, 44, 45, 46, 47]
   = (0x63808702, 0xa947092c, 0xe999b8d6, 0x5005ffe9)"
  by (simp add: md5_step_def md5_K_def md5_S_def rotl_def Let_def)

lemma md5_rounds_left_1_4:
  "foldl (md5_step
     [0x54584554, 0x4c4c4f43, 0x47665942, 0x45554a69, 0x34514854, 0x4b634168,
      0x35644d53, 0x6770597a, 0x59316671, 0x6b684452, 0x6b48786d, 0x70575068,
      0x6f6b7274, 0x38327a79, 0x39496e77, 0x48613056])
     (0x63808702, 0xa947092c, 0xe999b8d6, 0x5005ffe9)
     [48, 49, 50, 51, 52, 53, 54, 55, 56, 57, 58, 59, 60, 61, 62, 63]
   = (0x7ae99ce3, 0xae5d14a1, 0x02b05a6b, 0xbd273e0b)"
  by (simp add: md5_step_def md5_K_def md5_S_def rotl_def Let_def)

lemma md5_block_left_1:
  "md5_block (0x67452301, 0xefcdab89, 0x98badcfe, 0x10325476)
     [0x54584554, 0x4c4c4f43, 0x47665942, 0x45554a69, 0x34514854, 0x4b634168,
      0x35644d53, 0x6770597a, 0x59316671, 0x6b684452, 0x6b48786d, 0x70575068,
      0x6f6b7274, 0x38327a79, 0x39496e77, 0x48613056]
   = (0xe22ebfe4, 0x9e2ac02a, 0x9b6b3769, 0xcd599281)"
  unfolding md5_block_def md5_rounds_split
  by (simp only: foldl_append prod.case
      md5_rounds_left_1_1 md5_rounds_left_1_2
      md5_rounds_left_1_3 md5_rounds_left_1_4) simp

lemma md5_rounds_left_2_1:
  "foldl (md5_step
     [0x61754165, 0x6b616e4b, 0x00000080, 0x00000000, 0x00000000, 0x00000000,
      0x00000000, 0x00000000, 0x00000000, 0x00000000, 0x00000000, 0x00000000,
      0x00000000, 0x00000000, 0x00000240, 0x00000000])
     (0xe22ebfe4, 0x9e2ac02a, 0x9b6b3769, 0xcd599281)
     [0, 1, 2, 3, 4, 5, 6, 7, 8, 9, 10, 11, 12, 13, 14, 15]
   = (0xd42ac183, 0x9516d5a9, 0xc699bfb1, 0xd6ab9d59)"
  by (simp add: md5_step_def md5_K_def md5_S_def rotl_def Let_def)

lemma md5_rounds_left_2_2:
  "foldl (md5_step
     [0x61754165, 0x6b616e4b, 0x00000080, 0x00000000, 0x00000000, 0x00000000,
      0x00000000, 0x00000000, 0x00000000, 0x00000000, 0x00000000, 0x00000000,
      0x00000000, 0x00000000, 0x00000240, 0x00000000])
     (0xd42ac183, 0x9516d5a9, 0xc699bfb1, 0xd6ab9d59)
     [16, 17, 18, 19, 20, 21, 22, 23, 24, 25, 26, 27, 28, 29, 30, 31]
   = (0xd6814186, 0x7636326d, 0xee45a178, 0xb278ea4b)"
  by (simp add: md5_step_def md5_K_def md5_S_def rotl_def Let_def)

lemma md5_rounds_left_2_3:
  "foldl (md5_step
     [0x61754165, 0x6b616e4b, 0x00000080, 0x00000000, 0x00000000, 0x00000000,
      0x00000000, 0x00000000, 0x00000000, 0x00000000, 0x00000000, 0x00000000,
      0x00000000, 0x00000000, 0x00000240, 0x00000000])
     (0xd6814186, 0x7636326d, 0xee45a178, 0xb278ea4b)
     [32, 33, 34, 35, 36, 37, 38, 39, 40, 41, 42, 43, 44, 45, 46, 47]
   = (0xc78469ea, 0x8a576851, 0xcda76bc9, 0xec850dcb)"
  by (simp add: md5_step_def md5_K_def md5_S_def rotl_def Let_def)

lemma md5_rounds_left_2_4:
  "foldl (md5_step
     [0x61754165, 0x6b616e4b, 0x00000080, 0x00000000, 0x00000000, 0x00000000,
      0x00000000, 0x00000000, 0x00000000, 0x00000000, 0x00000000, 0x00000000,
      0x00000000, 0x00000000, 0x00000240, 0x00000000])
     (0xc78469ea, 0x8a576851, 0xcda76bc9, 0xec850dcb)
     [48, 49, 50, 51, 52, 53, 54, 55, 56, 57, 58, 59, 60, 61, 62, 63]
   = (0xa41aee16, 0x5e6dd444, 0x8d89e1ae, 0x9ba8e81d)"
  by (simp add: md5_step_def md5_K_def md5_S_def rotl_def Let_def)

lemma md5_block_left_2:
  "md5_block (0xe22ebfe4, 0x9e2ac02a, 0x9b6b3769, 0xcd599281)
     [0x61754165, 0x6b616e4b, 0x00000080, 0x00000000, 0x00000000, 0x00000000,
      0x00000000, 0x00000000, 0x00000000, 0x00000000, 0x00000000, 0x00000000,
      0x00000000, 0x00000000, 0x00000240, 0x00000000]
   = (0x8649adfa, 0xfc98946e, 0x28f51917, 0x69027a9e)"
  unfolding md5_block_def md5_rounds_split
  by (simp only: foldl_append prod.case
      md5_rounds_left_2_1 md5_rounds_left_2_2
      md5_rounds_left_2_3 md5_rounds_left_2_4) simp

lemma md5_left:
  "md5 ''TEXTCOLLBYfGiJUETHQ4hAcKSMd5zYpgqf1YRDhkmxHkhPWptrkoyz28wnI9V0aHeAuaKnak''
     = ''faad49866e9498fc1719f5289e7a0269''"
  by (simp only: md5_def md5_chunks_left foldl_Cons foldl_Nil md5_block_left_1 md5_block_left_2)
    (simp add: md5_digest_def hex_byte_def)

lemma md5_chunks_right:
  "md5_chunks (md5_words (md5_pad (map of_char
       ''TEXTCOLLBYfGiJUETHQ4hEcKSMd5zYpgqf1YRDhkmxHkhPWptrkoyz28wnI9V0aHeAuaKnak''))) =
     [[0x54584554, 0x4c4c4f43, 0x47665942, 0x45554a69, 0x34514854, 0x4b634568,
      0x35644d53, 0x6770597a, 0x59316671, 0x6b684452, 0x6b48786d, 0x70575068,
      0x6f6b7274, 0x38327a79, 0x39496e77, 0x48613056],
      [0x61754165, 0x6b616e4b, 0x00000080, 0x00000000, 0x00000000, 0x00000000,
      0x00000000, 0x00000000, 0x00000000, 0x00000000, 0x00000000, 0x00000000,
      0x00000000, 0x00000000, 0x00000240, 0x00000000]]"
  by (simp add: md5_pad_def replicate_64_zero)

lemma md5_rounds_right_1_1:
  "foldl (md5_step
     [0x54584554, 0x4c4c4f43, 0x47665942, 0x45554a69, 0x34514854, 0x4b634568,
      0x35644d53, 0x6770597a, 0x59316671, 0x6b684452, 0x6b48786d, 0x70575068,
      0x6f6b7274, 0x38327a79, 0x39496e77, 0x48613056])
     (0x67452301, 0xefcdab89, 0x98badcfe, 0x10325476)
     [0, 1, 2, 3, 4, 5, 6, 7, 8, 9, 10, 11, 12, 13, 14, 15]
   = (0xfeae24b6, 0x7b467337, 0xeb692a3f, 0x8d009cd7)"
  by (simp add: md5_step_def md5_K_def md5_S_def rotl_def Let_def)

lemma md5_rounds_right_1_2:
  "foldl (md5_step
     [0x54584554, 0x4c4c4f43, 0x47665942, 0x45554a69, 0x34514854, 0x4b634568,
      0x35644d53, 0x6770597a, 0x59316671, 0x6b684452, 0x6b48786d, 0x70575068,
      0x6f6b7274, 0x38327a79, 0x39496e77, 0x48613056])
     (0xfeae24b6, 0x7b467337, 0xeb692a3f, 0x8d009cd7)
     [16, 17, 18, 19, 20, 21, 22, 23, 24, 25, 26, 27, 28, 29, 30, 31]
   = (0xc69720ae, 0x77a6463d, 0xf81984cd, 0x791dccdc)"
  by (simp add: md5_step_def md5_K_def md5_S_def rotl_def Let_def)

lemma md5_rounds_right_1_3:
  "foldl (md5_step
     [0x54584554, 0x4c4c4f43, 0x47665942, 0x45554a69, 0x34514854, 0x4b634568,
      0x35644d53, 0x6770597a, 0x59316671, 0x6b684452, 0x6b48786d, 0x70575068,
      0x6f6b7274, 0x38327a79, 0x39496e77, 0x48613056])
     (0xc69720ae, 0x77a6463d, 0xf81984cd, 0x791dccdc)
     [32, 33, 34, 35, 36, 37, 38, 39, 40, 41, 42, 43, 44, 45, 46, 47]
   = (0x63808702, 0xa947092c, 0xe999b8d6, 0x5005ffe9)"
  by (simp add: md5_step_def md5_K_def md5_S_def rotl_def Let_def)

lemma md5_rounds_right_1_4:
  "foldl (md5_step
     [0x54584554, 0x4c4c4f43, 0x47665942, 0x45554a69, 0x34514854, 0x4b634568,
      0x35644d53, 0x6770597a, 0x59316671, 0x6b684452, 0x6b48786d, 0x70575068,
      0x6f6b7274, 0x38327a79, 0x39496e77, 0x48613056])
     (0x63808702, 0xa947092c, 0xe999b8d6, 0x5005ffe9)
     [48, 49, 50, 51, 52, 53, 54, 55, 56, 57, 58, 59, 60, 61, 62, 63]
   = (0xfae99ce3, 0x2e5d14a1, 0x82b05a6b, 0x3d273e0b)"
  by (simp add: md5_step_def md5_K_def md5_S_def rotl_def Let_def)

lemma md5_block_right_1:
  "md5_block (0x67452301, 0xefcdab89, 0x98badcfe, 0x10325476)
     [0x54584554, 0x4c4c4f43, 0x47665942, 0x45554a69, 0x34514854, 0x4b634568,
      0x35644d53, 0x6770597a, 0x59316671, 0x6b684452, 0x6b48786d, 0x70575068,
      0x6f6b7274, 0x38327a79, 0x39496e77, 0x48613056]
   = (0x622ebfe4, 0x1e2ac02a, 0x1b6b3769, 0x4d599281)"
  unfolding md5_block_def md5_rounds_split
  by (simp only: foldl_append prod.case
      md5_rounds_right_1_1 md5_rounds_right_1_2
      md5_rounds_right_1_3 md5_rounds_right_1_4) simp

lemma md5_rounds_right_2_1:
  "foldl (md5_step
     [0x61754165, 0x6b616e4b, 0x00000080, 0x00000000, 0x00000000, 0x00000000,
      0x00000000, 0x00000000, 0x00000000, 0x00000000, 0x00000000, 0x00000000,
      0x00000000, 0x00000000, 0x00000240, 0x00000000])
     (0x622ebfe4, 0x1e2ac02a, 0x1b6b3769, 0x4d599281)
     [0, 1, 2, 3, 4, 5, 6, 7, 8, 9, 10, 11, 12, 13, 14, 15]
   = (0x542ac183, 0x1516d5a9, 0x4699bfb1, 0x56ab9d59)"
  by (simp add: md5_step_def md5_K_def md5_S_def rotl_def Let_def)

lemma md5_rounds_right_2_2:
  "foldl (md5_step
     [0x61754165, 0x6b616e4b, 0x00000080, 0x00000000, 0x00000000, 0x00000000,
      0x00000000, 0x00000000, 0x00000000, 0x00000000, 0x00000000, 0x00000000,
      0x00000000, 0x00000000, 0x00000240, 0x00000000])
     (0x542ac183, 0x1516d5a9, 0x4699bfb1, 0x56ab9d59)
     [16, 17, 18, 19, 20, 21, 22, 23, 24, 25, 26, 27, 28, 29, 30, 31]
   = (0x56814186, 0xf636326d, 0x6e45a178, 0x3278ea4b)"
  by (simp add: md5_step_def md5_K_def md5_S_def rotl_def Let_def)

lemma md5_rounds_right_2_3:
  "foldl (md5_step
     [0x61754165, 0x6b616e4b, 0x00000080, 0x00000000, 0x00000000, 0x00000000,
      0x00000000, 0x00000000, 0x00000000, 0x00000000, 0x00000000, 0x00000000,
      0x00000000, 0x00000000, 0x00000240, 0x00000000])
     (0x56814186, 0xf636326d, 0x6e45a178, 0x3278ea4b)
     [32, 33, 34, 35, 36, 37, 38, 39, 40, 41, 42, 43, 44, 45, 46, 47]
   = (0x478469ea, 0x0a576851, 0x4da76bc9, 0x6c850dcb)"
  by (simp add: md5_step_def md5_K_def md5_S_def rotl_def Let_def)

lemma md5_rounds_right_2_4:
  "foldl (md5_step
     [0x61754165, 0x6b616e4b, 0x00000080, 0x00000000, 0x00000000, 0x00000000,
      0x00000000, 0x00000000, 0x00000000, 0x00000000, 0x00000000, 0x00000000,
      0x00000000, 0x00000000, 0x00000240, 0x00000000])
     (0x478469ea, 0x0a576851, 0x4da76bc9, 0x6c850dcb)
     [48, 49, 50, 51, 52, 53, 54, 55, 56, 57, 58, 59, 60, 61, 62, 63]
   = (0x241aee16, 0xde6dd444, 0x0d89e1ae, 0x1ba8e81d)"
  by (simp add: md5_step_def md5_K_def md5_S_def rotl_def Let_def)

lemma md5_block_right_2:
  "md5_block (0x622ebfe4, 0x1e2ac02a, 0x1b6b3769, 0x4d599281)
     [0x61754165, 0x6b616e4b, 0x00000080, 0x00000000, 0x00000000, 0x00000000,
      0x00000000, 0x00000000, 0x00000000, 0x00000000, 0x00000000, 0x00000000,
      0x00000000, 0x00000000, 0x00000240, 0x00000000]
   = (0x8649adfa, 0xfc98946e, 0x28f51917, 0x69027a9e)"
  unfolding md5_block_def md5_rounds_split
  by (simp only: foldl_append prod.case
      md5_rounds_right_2_1 md5_rounds_right_2_2
      md5_rounds_right_2_3 md5_rounds_right_2_4) simp

lemma md5_right:
  "md5 ''TEXTCOLLBYfGiJUETHQ4hEcKSMd5zYpgqf1YRDhkmxHkhPWptrkoyz28wnI9V0aHeAuaKnak''
     = ''faad49866e9498fc1719f5289e7a0269''"
  by (simp only: md5_def md5_chunks_right foldl_Cons foldl_Nil md5_block_right_1 md5_block_right_2)
    (simp add: md5_digest_def hex_byte_def)

lemma md5_collision:
  "md5 ''TEXTCOLLBYfGiJUETHQ4hAcKSMd5zYpgqf1YRDhkmxHkhPWptrkoyz28wnI9V0aHeAuaKnak''
     = md5 ''TEXTCOLLBYfGiJUETHQ4hEcKSMd5zYpgqf1YRDhkmxHkhPWptrkoyz28wnI9V0aHeAuaKnak''"
  by (simp only: md5_left md5_right)

section \<open>Properties of generateHash\<close>

lemma generateHash_formula:
  "generateHash md5_hex u p s = ''md5'' @ md5_hex (md5_hex (p @ u) @ s)"
  by (simp add: generateHash_def)

text \<open>
  Claim C7 (as amended). \<open>generateHash u p s\<close> is \<open>"md5"\<close> followed by the hex MD5 of (the
  hex MD5 of \<open>p + u\<close>, followed by the salt bytes); it starts with \<open>"md5"\<close>; with the salt
  fixed it depends on \<open>u\<close> and \<open>p\<close> only through the concatenation \<open>p + u\<close>, so two
  credentials with the same concatenation have the same hash; and two credentials with
  different concatenations have different hashes unless MD5 itself collides, on the two
  concatenations or on the two salted inner digests.
\<close>

theorem generateHash_depends_on_concatenation:
  "generateHash md5_hex u p s = ''md5'' @ md5_hex (md5_hex (p @ u) @ s)
   \<and> take 3 (generateHash md5_hex u p s) = ''md5''
   \<and> (p @ u = p' @ u' \<longrightarrow> generateHash md5_hex u p s = generateHash md5_hex u' p' s)
   \<and> (generateHash md5_hex u p s = generateHash md5_hex u' p' s \<longrightarrow>
        p @ u = p' @ u'
        \<or> (p @ u \<noteq> p' @ u' \<and> md5_hex (p @ u) = md5_hex (p' @ u'))
        \<or> (md5_hex (p @ u) @ s \<noteq> md5_hex (p' @ u') @ s
            \<and> md5_hex (md5_hex (p @ u) @ s) = md5_hex (md5_hex (p' @ u') @ s)))"
  by (auto simp: generateHash_formula)

theorem generateHash_depends_on_concatenation_witness:
  "''c'' @ ''ab'' = ''ca'' @ ''b''
   \<and> generateHash rev ''ab'' ''c'' ''salt'' = generateHash rev ''b'' ''ca'' ''salt''
   \<and> generateHash rev ''ab'' ''c'' ''salt'' = ''md5'' @ rev (rev (''c'' @ ''ab'') @ ''salt'')
   \<and> take 3 (generateHash rev ''ab'' ''c'' ''salt'') = ''md5''"
  using generateHash_depends_on_concatenation
    [of rev "''ab''" "''c''" "''salt''" "''ca''" "''b''"]
  by (simp add: generateHash_formula)

text \<open>
  The claim as written fails. The user \<open>ab\<close> with password \<open>c\<close> and the user \<open>b\<close> with
  password \<open>ca\<close> differ in both components and, for the same salt, have the same hash
  whatever the digest function is. With the MD5 function itself, two users that differ in
  one byte have the same hash under the password \<open>TEXTCOLLBY\<close>, and two passwords that differ
  in one byte have the same hash for the user \<open>nak\<close>: in both cases the two concatenations
  \<open>p + u\<close> are the two colliding inputs.
\<close>

theorem generateHash_changes_counterexample:
  "''ab'' \<noteq> ''b'' \<and> ''c'' \<noteq> ''ca''
   \<and> \<not> (\<exists>md5_hex. generateHash md5_hex ''ab'' ''c'' ''salt''
                     \<noteq> generateHash md5_hex ''b'' ''ca'' ''salt'')
   \<and> ''fGiJUETHQ4hAcKSMd5zYpgqf1YRDhkmxHkhPWptrkoyz28wnI9V0aHeAuaKnak''
       \<noteq> ''fGiJUETHQ4hEcKSMd5zYpgqf1YRDhkmxHkhPWptrkoyz28wnI9V0aHeAuaKnak''
   \<and> generateHash md5 ''fGiJUETHQ4hAcKSMd5zYpgqf1YRDhkmxHkhPWptrkoyz28wnI9V0aHeAuaKnak''
         ''TEXTCOLLBY'' ''salt''
       = generateHash md5 ''fGiJUETHQ4hEcKSMd5zYpgqf1YRDhkmxHkhPWptrkoyz28wnI9V0aHeAuaKnak''
           ''TEXTCOLLBY'' ''salt''
   \<and> ''TEXTCOLLBYfGiJUETHQ4hAcKSMd5zYpgqf1YRDhkmxHkhPWptrkoyz28wnI9V0aHeAuaK''
       \<noteq> ''TEXTCOLLBYfGiJUETHQ4hEcKSMd5zYpgqf1YRDhkmxHkhPWptrkoyz28wnI9V0aHeAuaK''
   \<and> generateHash md5 ''nak''
         ''TEXTCOLLBYfGiJUETHQ4hAcKSMd5zYpgqf1YRDhkmxHkhPWptrkoyz28wnI9V0aHeAuaK'' ''salt''
       = generateHash md5 ''nak''
           ''TEXTCOLLBYfGiJUETHQ4hEcKSMd5zYpgqf1YRDhkmxHkhPWptrkoyz28wnI9V0aHeAuaK'' ''salt''"
  using md5_collision by (simp add: generateHash_formula)

section \<open>Properties of escapeSqlIdentifier\<close>

lemma collapse_doubled_quotes_other:
  "a \<noteq> dquote \<Longrightarrow> collapse_doubled_quotes (a # cs) = a # collapse_doubled_quotes cs"
  by (cases cs) simp_all

lemma collapse_replace:
  "collapse_doubled_quotes (replace_quote_or_NUL str) =
     map (\<lambda>c. if c = NUL then dquote else c) str"
proof (induction str)
  case Nil
  show ?case by (simp add: replace_quote_or_NUL_def)
next
  case (Cons c cs)
  then show ?case
    by (auto simp: replace_quote_or_NUL_def collapse_doubled_quotes_other)
qed

lemma strip_escape: "strip_outer_quotes (escapeSqlIdentifier str) = replace_quote_or_NUL str"
  by (simp add: strip_outer_quotes_def escapeSqlIdentifier_def butlast_append)

text \<open>
  Claim C4 (as amended). Un-escaping the output of \<open>escapeSqlIdentifier s\<close> gives \<open>s\<close> with
  every NUL replaced by a double quote; it reproduces \<open>s\<close> exactly when \<open>s\<close> holds no NUL.
\<close>

theorem unescape_escapeSqlIdentifier:
  "unescape_spec (escapeSqlIdentifier s) = map (\<lambda>c. if c = NUL then dquote else c) s
   \<and> (NUL \<notin> set s \<longrightarrow> unescape_spec (escapeSqlIdentifier s) = s)"
proof -
  have eq: "unescape_spec (escapeSqlIdentifier s) = map (\<lambda>c. if c = NUL then dquote else c) s"
    by (simp add: unescape_spec_def strip_escape collapse_replace)
  moreover have "NUL \<notin> set s \<Longrightarrow> map (\<lambda>c. if c = NUL then dquote else c) s = s"
    by (induction s) auto
  ultimately show ?thesis by simp
qed

theorem unescape_escapeSqlIdentifier_witness:
  "NUL \<notin> set [CHR ''a'', dquote, CHR ''b'']
   \<and> escapeSqlIdentifier [CHR ''a'', dquote, CHR ''b'']
       = [dquote, CHR ''a'', dquote, dquote, CHR ''b'', dquote]
   \<and> unescape_spec (escapeSqlIdentifier [CHR ''a'', dquote, CHR ''b''])
       = [CHR ''a'', dquote, CHR ''b'']"
  using unescape_escapeSqlIdentifier [of "[CHR ''a'', dquote, CHR ''b'']"]
  by (simp add: NUL_def dquote_def escapeSqlIdentifier_def replace_quote_or_NUL_def)

text \<open>
  The claim as written fails on a string that holds a NUL: the one-character string NUL
  is escaped to four double quotes and un-escapes to a double quote.
\<close>

theorem unescape_escapeSqlIdentifier_counterexample:
  "escapeSqlIdentifier [NUL] = [dquote, dquote, dquote, dquote]
   \<and> unescape_spec (escapeSqlIdentifier [NUL]) = [dquote]
   \<and> unescape_spec (escapeSqlIdentifier [NUL]) \<noteq> [NUL]"
  by (simp add: unescape_spec_def strip_outer_quotes_def escapeSqlIdentifier_def
      replace_quote_or_NUL_def NUL_def dquote_def)

section \<open>Decimal rendering\<close>

lemma show_nat_digit: "n < 10 \<Longrightarrow> show_nat n = [digit n]"
  by (subst show_nat.simps) simp

lemma show_nat_more: "10 \<le> n \<Longrightarrow> show_nat n = show_nat (n div 10) @ [digit (n mod 10)]"
  by (subst show_nat.simps) simp

lemmas show_eval = show_int_def show_nat_digit show_nat_more digit_def

lemma digit_in: "d < 10 \<Longrightarrow> digit d \<in> set ''0123456789''"
  unfolding digit_def by (rule nth_mem) simp

lemma digit_zero_iff: "d < 10 \<Longrightarrow> (digit d = CHR ''0'') = (d = 0)"
proof -
  assume "d < 10"
  then have "d \<in> {0, 1, 2, 3, 4, 5, 6, 7, 8, 9}" by auto
  then show ?thesis by (auto simp: digit_def)
qed

lemma show_nat_chars: "set (show_nat n) \<subseteq> set ''0123456789''"
proof (induction n rule: show_nat.induct)
  case (1 n)
  show ?case
  proof (cases "n < 10")
    case True
    then show ?thesis using digit_in [of n] by (simp add: show_nat_digit)
  next
    case False
    then have "set (show_nat (n div 10)) \<subseteq> set ''0123456789''" using 1 by simp
    moreover have "digit (n mod 10) \<in> set ''0123456789''" by (rule digit_in) simp
    ultimately show ?thesis using False by (simp add: show_nat_more)
  qed
qed

lemma show_nat_nonempty: "show_nat n \<noteq> []"
  by (subst show_nat.simps) simp

lemma show_nat_hd: "0 < n \<Longrightarrow> hd (show_nat n) \<noteq> CHR ''0''"
proof (induction n rule: show_nat.induct)
  case (1 n)
  show ?case
  proof (cases "n < 10")
    case True
    with "1.prems" show ?thesis by (simp add: show_nat_digit digit_zero_iff)
  next
    case False
    then have "0 < n div 10" by simp
    with 1 False have "hd (show_nat (n div 10)) \<noteq> CHR ''0''" by simp
    with False show ?thesis by (simp add: show_nat_more show_nat_nonempty)
  qed
qed

lemma show_int_chars: "set (show_int i) \<subseteq> set ''-0123456789''"
proof -
  have sub: "set ''0123456789'' \<subseteq> set ''-0123456789''" by (simp add: subset_insertI2)
  show ?thesis
  proof (cases "i < 0")
    case True
    have "set (show_nat (nat (- i))) \<subseteq> set ''-0123456789''"
      using show_nat_chars sub by (rule subset_trans)
    moreover have "CHR ''-'' \<in> set ''-0123456789''" by simp
    ultimately show ?thesis using True by (simp only: show_int_def if_True set_simps insert_subset)
  next
    case False
    have "set (show_nat (nat i)) \<subseteq> set ''-0123456789''"
      using show_nat_chars sub by (rule subset_trans)
    then show ?thesis using False by (simp only: show_int_def if_False)
  qed
qed

lemma show_int_without:
  assumes "c \<notin> set ''-0123456789''"
  shows "c \<notin> set (show_int i)"
  using assms show_int_chars [of i] by (meson subsetD)

lemma show_int_nonpositive: "i \<le> 0 \<Longrightarrow> hd (show_int i) = CHR ''-'' \<or> hd (show_int i) = CHR ''0''"
  by (cases "i = 0") (auto simp: show_int_def show_nat_digit digit_def)

lemma show_int_positive:
  assumes "0 < i"
  shows "hd (show_int i) \<noteq> CHR ''-'' \<and> hd (show_int i) \<noteq> CHR ''0''"
proof -
  have "hd (show_nat (nat i)) \<in> set (show_nat (nat i))"
    using show_nat_nonempty by simp
  then have "hd (show_nat (nat i)) \<in> set ''0123456789''" using show_nat_chars by blast
  then have "hd (show_nat (nat i)) \<noteq> CHR ''-''" by auto
  moreover have "hd (show_nat (nat i)) \<noteq> CHR ''0''" using assms by (simp add: show_nat_hd)
  ultimately show ?thesis using assms by (simp add: show_int_def)
qed

lemma show_int_sign: "i \<le> 0 \<Longrightarrow> 0 < j \<Longrightarrow> show_int i \<noteq> show_int j"
  using show_int_nonpositive [of i] show_int_positive [of j] by auto

section \<open>Parenthesised predicates in a query text\<close>

lemma sublist_skip_prefix:
  assumes "c \<notin> set h"
  shows "sublist (c # m) (h @ zs) \<Longrightarrow> sublist (c # m) zs"
  using assms
proof (induction h)
  case Nil
  then show ?case by simp
next
  case (Cons x h)
  from Cons.prems have "x \<noteq> c" by auto
  with Cons.prems(1) have "sublist (c # m) (h @ zs)"
    by (auto simp: sublist_Cons_right)
  with Cons show ?case by simp
qed

lemma prefix_until:
  assumes "c \<notin> set b" "c \<notin> set bx"
  shows "prefix (b @ [c]) (bx @ c # rest) \<Longrightarrow> b = bx"
  using assms
proof (induction b arbitrary: bx)
  case Nil
  then show ?case by (cases bx) auto
next
  case (Cons a b)
  then show ?case by (cases bx) auto
qed

lemma sublist_group:
  assumes "c \<notin> set bx" "d \<notin> set bx" "d \<notin> set b" "c \<noteq> d"
    and "sublist (c # b @ [d]) (c # bx @ d # rest)"
  shows "b = bx \<or> sublist (c # b @ [d]) rest"
proof -
  from assms(5) have
    "prefix (c # b @ [d]) (c # bx @ d # rest) \<or> sublist (c # b @ [d]) (bx @ d # rest)"
    by (simp only: sublist_Cons_right)
  then show ?thesis
  proof
    assume "prefix (c # b @ [d]) (c # bx @ d # rest)"
    then have "prefix (b @ [d]) (bx @ d # rest)" by (simp only: Cons_prefix_Cons)
    then have "b = bx" by (rule prefix_until [OF assms(3) assms(2)])
    then show ?thesis ..
  next
    assume "sublist (c # b @ [d]) (bx @ d # rest)"
    then have "sublist (c # b @ [d]) ((bx @ [d]) @ rest)" by simp
    moreover have "c \<notin> set (bx @ [d])" using assms(1,4) by simp
    ultimately have "sublist (c # b @ [d]) rest" by (rule sublist_skip_prefix [rotated])
    then show ?thesis ..
  qed
qed

lemma sublist_join_groups:
  assumes "group_body b" "CHR ''('' \<notin> set sep"
    and "\<forall>x\<in>set bodies. group_body x"
    and "sublist (CHR ''('' # b @ '')'')
           (join sep (map (\<lambda>x. CHR ''('' # x @ '')'') bodies) @ rest)"
  shows "b \<in> set bodies \<or> sublist (CHR ''('' # b @ '')'') rest"
  using assms(3,4)
proof (induction bodies rule: induct_list012)
  case 1
  then show ?case by simp
next
  case (2 x)
  then have "sublist (CHR ''('' # b @ '')'') ((CHR ''('' # x @ '')'') @ rest)" by simp
  with 2 assms(1) show ?case
    using sublist_group [of "CHR ''(''" x "CHR '')''" b rest] by (auto simp: group_body_def)
next
  case (3 x y zs)
  let ?next = "join sep (map (\<lambda>x. CHR ''('' # x @ '')'') (y # zs)) @ rest"
  from 3(4) have "sublist (CHR ''('' # b @ '')'') ((CHR ''('' # x @ '')'') @ (sep @ ?next))"
    by simp
  moreover from 3(3) have "group_body x" by simp
  ultimately have "b = x \<or> sublist (CHR ''('' # b @ '')'') (sep @ ?next)"
    using sublist_group [of "CHR ''(''" x "CHR '')''" b "sep @ ?next"] assms(1)
    by (auto simp: group_body_def)
  then show ?case
  proof
    assume "b = x"
    then show ?thesis by simp
  next
    assume "sublist (CHR ''('' # b @ '')'') (sep @ ?next)"
    with assms(2) have "sublist (CHR ''('' # b @ '')'') ?next"
      by (rule sublist_skip_prefix)
    moreover from 3(3) have "\<forall>x\<in>set (y # zs). group_body x" by simp
    ultimately have "b \<in> set (y # zs) \<or> sublist (CHR ''('' # b @ '')'') rest"
      using 3(2) by blast
    then show ?thesis by auto
  qed
qed

lemma sublist_join_member: "x \<in> set xs \<Longrightarrow> sublist x (join sep xs)"
proof (induction xs rule: induct_list012)
  case 1
  then show ?case by simp
next
  case (2 y)
  then show ?case by simp
next
  case (3 y z zs)
  show ?case
  proof (cases "x = y")
    case True
    then show ?thesis by (simp add: sublist_append)
  next
    case False
    with 3 have "sublist x (join sep (z # zs))" by simp
    then have "sublist x ((y @ sep) @ join sep (z # zs))"
      by (simp only: sublist_append) simp
    then show ?thesis by simp
  qed
qed

lemma append_eq_at_first:
  assumes "c \<notin> set a" "c \<notin> set a'"
  shows "a @ c # r = a' @ c # r' \<Longrightarrow> a = a' \<and> r = r'"
  using assms
proof (induction a arbitrary: a')
  case Nil
  then show ?case by (cases a') auto
next
  case (Cons x a)
  then show ?case by (cases a') auto
qed

section \<open>The channel operations\<close>

lemma receive_Done_kind: "receive rej ks ms = (Done m, ms') \<Longrightarrow> kind_of m \<in> set ks"
  by (induction ms) (auto split: if_splits option.splits)

lemma reply_events: "reply ks q = (r, q') \<Longrightarrow> events q' = events q @ [Await ks]"
  by (auto simp: reply_def split: prod.splits)



lemma only_awaits_append [simp]:
  "only_awaits (xs @ ys) = (only_awaits xs \<and> only_awaits ys)"
  by (simp add: only_awaits_def)

lemma only_awaits_Await [simp]: "only_awaits [Await ks]"
  by (simp add: only_awaits_def)

lemma only_awaits_Nil [simp]: "only_awaits []"
  by (simp add: only_awaits_def)

lemma runQuery_rows_events:
  "runQuery_rows resultRows q = (r, q') \<Longrightarrow>
   \<exists>more. events q' = events q @ more \<and> only_awaits more"
proof (induction resultRows q arbitrary: r q' rule: runQuery_rows.induct)
  case (1 resultRows q)
  obtain r1 q1 where rep: "reply [dataRow, commandComplete] q = (r1, q1)"
    by (cases "reply [dataRow, commandComplete] q") auto
  have e1: "events q1 = events q @ [Await [dataRow, commandComplete]]"
    using reply_events [OF rep] .
  show ?case
  proof (cases "\<exists>columns. r1 = Done (DataRow columns)")
    case True
    then obtain columns where c: "r1 = Done (DataRow columns)" by blast
    from "1.prems" rep c have "runQuery_rows (resultRows @ [columns]) q1 = (r, q')"
      by (subst (asm) runQuery_rows.simps) simp
    from "1.IH" [OF rep [symmetric, unfolded c] refl refl this] obtain more where
      "events q' = events q1 @ more" "only_awaits more" by blast
    with e1 have "events q' = events q @ (Await [dataRow, commandComplete] # more)
        \<and> only_awaits (Await [dataRow, commandComplete] # more)"
      by (simp add: only_awaits_def)
    then show ?thesis by blast
  next
    case False
    with "1.prems" rep have "q' = q1"
      by (subst (asm) runQuery_rows.simps)
        (auto split: outcome.splits server_msg.splits)
    with e1 have "events q' = events q @ [Await [dataRow, commandComplete]]
        \<and> only_awaits [Await [dataRow, commandComplete]]" by simp
    then show ?thesis by blast
  qed
qed

lemma runQuery_events:
  assumes "runQuery qtext q = (r, q')"
  shows "\<exists>more. events q' = events q @ Send (QueryMsg qtext) # more \<and> only_awaits more"
proof -
  obtain r1 q1 where rep:
    "reply [rowDescription] (q\<lparr>events := events q @ [Send (QueryMsg qtext)]\<rparr>) = (r1, q1)"
    by (cases "reply [rowDescription] (q\<lparr>events := events q @ [Send (QueryMsg qtext)]\<rparr>)") auto
  have e1: "events q1 = events q @ [Send (QueryMsg qtext)] @ [Await [rowDescription]]"
    using reply_events [OF rep] by simp
  show ?thesis
  proof (cases "\<exists>m. r1 = Done m")
    case True
    with assms rep have "runQuery_rows [] q1 = (r, q')"
      by (auto simp: runQuery_def andThen_def send_def)
    from runQuery_rows_events [OF this] obtain more where
      "events q' = events q1 @ more" "only_awaits more" by blast
    with e1 have "events q' = events q @ Send (QueryMsg qtext) # (Await [rowDescription] # more)
        \<and> only_awaits (Await [rowDescription] # more)"
      by (simp add: only_awaits_def)
    then show ?thesis by blast
  next
    case False
    with assms rep have "q' = q1"
      by (auto simp: runQuery_def andThen_def send_def split: outcome.splits)
    with e1 have "events q' = events q @ Send (QueryMsg qtext) # [Await [rowDescription]]
        \<and> only_awaits [Await [rowDescription]]" by simp
    then show ?thesis by blast
  qed
qed

lemma runQuery_rows_Data:
  "reply [dataRow, commandComplete] q = (Done (DataRow columns), q') \<Longrightarrow>
   runQuery_rows resultRows q = runQuery_rows (resultRows @ [columns]) q'"
  by (subst runQuery_rows.simps) simp

lemma runQuery_rows_Complete:
  "reply [dataRow, commandComplete] q = (Done (CommandComplete t), q') \<Longrightarrow>
   runQuery_rows resultRows q = (Done resultRows, q')"
  by (subst runQuery_rows.simps) simp

lemma runQuery_rows_Raised:
  "reply [dataRow, commandComplete] q = (Raised e, q') \<Longrightarrow>
   runQuery_rows resultRows q = (Raised e, q')"
  by (subst runQuery_rows.simps) simp

lemma runQuery_rows_Pending:
  "reply [dataRow, commandComplete] q = (Pending, q') \<Longrightarrow>
   runQuery_rows resultRows q = (Pending, q')"
  by (subst runQuery_rows.simps) simp

lemmas run_eval =
  andThen_def send_def reply_def ret_def throw_def try_catch_def try_finally_def
  runQuery_def runQuery_rows_Data runQuery_rows_Complete runQuery_rows_Raised
  runQuery_rows_Pending Let_def column_def

section \<open>getTypeData\<close>

lemma getTypeData_error:
  assumes "receive (rejection q) [errorResponse, parseComplete] (inbox q)
             = (Done (ErrorResponse errorFields), rest)"
  shows "getTypeData md5_hex qtext q =
           (Done (Inl \<lparr>errorCode = errorFields CHR ''R'', hint = errorFields CHR ''H'',
                        message = errorFields CHR ''M'', position = errorFields CHR ''P''\<rparr>),
            q\<lparr>events := events q @
                 [Send (ParseMsg (md5_hex qtext) qtext []),
                  Send (DescribeMsg (md5_hex qtext) Statement),
                  Send (CloseMsg Statement (md5_hex qtext)),
                  Send FlushMsg,
                  Await [errorResponse, parseComplete],
                  Send SyncMsg],
               inbox := rest\<rparr>)"
  using assms
  by (simp add: getTypeData_def Let_def andThen_def send_def reply_def ret_def)

lemma getTypeData_events:
  assumes "receive (rejection q) [errorResponse, parseComplete] (inbox q)
             = (Done parseResult, rest)"
  shows "\<exists>tail. events (snd (getTypeData md5_hex qtext q)) = events q @
                 [Send (ParseMsg (md5_hex qtext) qtext []),
                  Send (DescribeMsg (md5_hex qtext) Statement),
                  Send (CloseMsg Statement (md5_hex qtext)),
                  Send FlushMsg,
                  Await [errorResponse, parseComplete],
                  Send SyncMsg] @ tail \<and> only_awaits tail"
proof (cases "\<exists>errorFields. parseResult = ErrorResponse errorFields")
  case True
  then obtain errorFields where "parseResult = ErrorResponse errorFields" by blast
  with assms show ?thesis by (simp add: getTypeData_error)
next
  case False
  then have pc: "parseResult = ParseComplete"
    using receive_Done_kind [OF assms] by (cases parseResult) auto
  show ?thesis
    using assms unfolding pc
    by (auto simp: getTypeData_def Let_def andThen_def send_def reply_def ret_def only_awaits_def
        split: prod.splits outcome.splits)
qed

text \<open>
  Claim C3. When the reply awaited by \<open>getTypeData\<close> is an error-response or a
  parse-complete, the next operation on the channel is the sending of one sync, and every
  operation after it is an await: no second sync, in either branch. When the reply is an
  error-response, nothing follows the sync, no further message is taken from the inbox,
  and the result is the parse error whose \<open>errorCode\<close>, \<open>hint\<close>, \<open>message\<close> and \<open>position\<close>
  are the \<open>R\<close>, \<open>H\<close>, \<open>M\<close> and \<open>P\<close> fields of the server's error payload.
\<close>

theorem getTypeData_sync:
  assumes "receive (rejection q) [errorResponse, parseComplete] (inbox q)
             = (Done parseResult, rest)"
  shows "\<exists>tail. events (snd (getTypeData md5_hex qtext q)) = events q @
                 [Send (ParseMsg (md5_hex qtext) qtext []),
                  Send (DescribeMsg (md5_hex qtext) Statement),
                  Send (CloseMsg Statement (md5_hex qtext)),
                  Send FlushMsg,
                  Await [errorResponse, parseComplete],
                  Send SyncMsg] @ tail
           \<and> only_awaits tail
           \<and> (\<forall>errorFields. parseResult = ErrorResponse errorFields \<longrightarrow>
                 tail = []
                 \<and> inbox (snd (getTypeData md5_hex qtext q)) = rest
                 \<and> fst (getTypeData md5_hex qtext q) =
                     Done (Inl \<lparr>errorCode = errorFields CHR ''R'',
                                 hint = errorFields CHR ''H'',
                                 message = errorFields CHR ''M'',
                                 position = errorFields CHR ''P''\<rparr>))"
proof (cases "\<exists>errorFields. parseResult = ErrorResponse errorFields")
  case True
  then obtain errorFields where "parseResult = ErrorResponse errorFields" by blast
  with assms show ?thesis by (simp add: getTypeData_error)
next
  case False
  with getTypeData_events [OF assms, of md5_hex qtext] show ?thesis by auto
qed

theorem getTypeData_sync_witness:
  "getTypeData (\<lambda>qtext. ''a1b2'') ''selct 1''
     \<lparr>events = [], inbox = [ErrorResponse syntax_error], connectError = None,
      rejection = reject_all\<rparr>
   = (Done (Inl \<lparr>errorCode = Some ''scanner_yyerror'', hint = None,
                 message = Some ''syntax error at or near selct'', position = Some ''1''\<rparr>),
      \<lparr>events = [Send (ParseMsg ''a1b2'' ''selct 1'' []), Send (DescribeMsg ''a1b2'' Statement),
                 Send (CloseMsg Statement ''a1b2''), Send FlushMsg,
                 Await [errorResponse, parseComplete], Send SyncMsg],
       inbox = [], connectError = None, rejection = reject_all\<rparr>)
   \<and> getTypeData (\<lambda>qtext. ''a1b2'') ''select id from users where id = $1''
     \<lparr>events = [],
      inbox = [ParseComplete, ParameterDescription [23], RowDescription [id_field], CloseComplete],
      connectError = None, rejection = reject_all\<rparr>
   = (Done (Inr \<lparr>fields' = [id_field], params = [23]\<rparr>),
      \<lparr>events = [Send (ParseMsg ''a1b2'' ''select id from users where id = $1'' []),
                 Send (DescribeMsg ''a1b2'' Statement),
                 Send (CloseMsg Statement ''a1b2''), Send FlushMsg,
                 Await [errorResponse, parseComplete], Send SyncMsg,
                 Await [parameterDescription, noData], Await [rowDescription, noData],
                 Await [closeComplete]],
       inbox = [], connectError = None, rejection = reject_all\<rparr>)"
proof -
  let ?q1 = "\<lparr>events = [], inbox = [ErrorResponse syntax_error], connectError = None,
      rejection = reject_all\<rparr>"
  let ?q2 = "\<lparr>events = [],
      inbox = [ParseComplete, ParameterDescription [23], RowDescription [id_field], CloseComplete],
      connectError = None, rejection = reject_all\<rparr>"
  have h1: "receive (rejection ?q1) [errorResponse, parseComplete] (inbox ?q1)
              = (Done (ErrorResponse syntax_error), [])"
    by simp
  have h2: "receive (rejection ?q2) [errorResponse, parseComplete] (inbox ?q2)
              = (Done ParseComplete,
                 [ParameterDescription [23], RowDescription [id_field], CloseComplete])"
    by simp
  from getTypeData_sync [OF h1, of "\<lambda>qtext. ''a1b2''" "''selct 1''"]
    getTypeData_sync [OF h2, of "\<lambda>qtext. ''a1b2''" "''select id from users where id = $1''"]
  show ?thesis
    by (simp add: getTypeData_def run_eval syntax_error_def)
qed

section \<open>explainQuery\<close>






lemmas explain_eval =
  explainQuery_def explainQuery_try_def explainQuery_catch_def explainQuery_finally_def
  explainQuery_text_def escapeSqlIdentifier_def replace_quote_or_NUL_def dquote_def NUL_def
  run_eval


text \<open>
  Claim C6 (as amended). When the parse of \<open>explainQuery\<close> has succeeded and the
  \<open>EXPLAIN EXECUTE\<close> step raises an exception \<open>e\<close>, the \<open>catch\<close> clause turns \<open>e\<close> into
  the parse error with the code \<open>_ERROR\<close>, the message of \<open>e\<close>, no hint and no position,
  and \<open>explainQuery\<close> returns that parse error when the clean-up that follows completes.
  When the await of close-complete in the clean-up fails, \<open>explainQuery\<close> raises that
  failure, and when it never resolves, \<open>explainQuery\<close> never returns.
\<close>

theorem explainQuery_exception:
  assumes "receive (rejection q) [errorResponse, parseComplete] (inbox q)
             = (Done parseResult, rest)"
    and "\<forall>errorFields. parseResult \<noteq> ErrorResponse errorFields"
    and "runQuery (explainQuery_text (md5_hex qtext) (length (params described)))
           (q\<lparr>events := events q @ [Send (ParseMsg (md5_hex qtext) qtext []), Send FlushMsg,
                  Await [errorResponse, parseComplete]], inbox := rest\<rparr>) = (Raised e, q2)"
  shows "explainQuery md5_hex qtext (Inr described) q =
           (case explainQuery_finally (md5_hex qtext)
                   (q2\<lparr>events := events q2 @ [ConsoleError ''Error occurred whilst testing query:'']\<rparr>) of
              (Done u, q3) \<Rightarrow>
                (Done (Inl \<lparr>errorCode = Some ''_ERROR'', hint = None, message = exn_message e,
                             position = None\<rparr>), q3)
            | (Raised e', q3) \<Rightarrow> (Raised e', q3)
            | (Pending, q3) \<Rightarrow> (Pending, q3))"
proof -
  from assms(1,2) have pc: "parseResult = ParseComplete"
    using receive_Done_kind [OF assms(1)] by (cases parseResult) auto
  show ?thesis
    using assms(1,3) unfolding pc
    by (simp add: explainQuery_def Let_def andThen_def send_def reply_def try_finally_def
        try_catch_def explainQuery_try_def explainQuery_catch_def
        split: prod.splits outcome.splits)
qed

theorem explainQuery_exception_witness:
  "explainQuery (\<lambda>qtext. ''a1b2'') ''select 1'' (Inr \<lparr>fields' = [], params = []\<rparr>)
     \<lparr>events = [],
      inbox = [ParseComplete, ErrorResponse permission_denied, CloseComplete],
      connectError = None, rejection = reject_all\<rparr>
   = (Done (Inl \<lparr>errorCode = Some ''_ERROR'', hint = None,
                 message = Some ''unexpected message'', position = None\<rparr>),
      \<lparr>events = [Send (ParseMsg ''a1b2'' ''select 1'' []), Send FlushMsg,
                 Await [errorResponse, parseComplete],
                 Send (QueryMsg (''explain execute '' @ [dquote] @ ''a1b2'' @ [dquote] @ '';'')),
                 Await [rowDescription],
                 ConsoleError ''Error occurred whilst testing query:'',
                 Send (CloseMsg Statement ''a1b2''), Send FlushMsg, Send SyncMsg,
                 Await [closeComplete]],
       inbox = [], connectError = None, rejection = reject_all\<rparr>)
   \<and> explainQuery (\<lambda>qtext. ''a1b2'') ''select 1'' (Inr \<lparr>fields' = [], params = []\<rparr>)
     \<lparr>events = [],
      inbox = [ParseComplete, ErrorResponse permission_denied, ReadyForQuery ''I'', CloseComplete,
               ReadyForQuery ''I''],
      connectError = None, rejection = reject_errors\<rparr>
   = (Done (Inl \<lparr>errorCode = Some ''_ERROR'', hint = None,
                 message = Some ''permission denied for table user_emails'', position = None\<rparr>),
      \<lparr>events = [Send (ParseMsg ''a1b2'' ''select 1'' []), Send FlushMsg,
                 Await [errorResponse, parseComplete],
                 Send (QueryMsg (''explain execute '' @ [dquote] @ ''a1b2'' @ [dquote] @ '';'')),
                 Await [rowDescription],
                 ConsoleError ''Error occurred whilst testing query:'',
                 Send (CloseMsg Statement ''a1b2''), Send FlushMsg, Send SyncMsg,
                 Await [closeComplete]],
       inbox = [ReadyForQuery ''I''], connectError = None, rejection = reject_errors\<rparr>)"
proof -
  let ?p = "\<lparr>events = [],
      inbox = [ParseComplete, ErrorResponse permission_denied, CloseComplete],
      connectError = None, rejection = reject_all\<rparr>"
  let ?p2 = "\<lparr>events = [Send (ParseMsg ''a1b2'' ''select 1'' []), Send FlushMsg,
                 Await [errorResponse, parseComplete],
                 Send (QueryMsg (''explain execute '' @ [dquote] @ ''a1b2'' @ [dquote] @ '';'')),
                 Await [rowDescription]],
      inbox = [CloseComplete], connectError = None, rejection = reject_all\<rparr>"
  let ?q = "\<lparr>events = [],
      inbox = [ParseComplete, ErrorResponse permission_denied, ReadyForQuery ''I'', CloseComplete,
               ReadyForQuery ''I''],
      connectError = None, rejection = reject_errors\<rparr>"
  let ?q2 = "\<lparr>events = [Send (ParseMsg ''a1b2'' ''select 1'' []), Send FlushMsg,
                 Await [errorResponse, parseComplete],
                 Send (QueryMsg (''explain execute '' @ [dquote] @ ''a1b2'' @ [dquote] @ '';'')),
                 Await [rowDescription]],
      inbox = [ReadyForQuery ''I'', CloseComplete, ReadyForQuery ''I''],
      connectError = None, rejection = reject_errors\<rparr>"
  have g1: "receive (rejection ?p) [errorResponse, parseComplete] (inbox ?p)
      = (Done ParseComplete, [ErrorResponse permission_denied, CloseComplete])"
    by simp
  have h1: "receive (rejection ?q) [errorResponse, parseComplete] (inbox ?q)
      = (Done ParseComplete,
         [ErrorResponse permission_denied, ReadyForQuery ''I'', CloseComplete, ReadyForQuery ''I''])"
    by simp
  have h2: "\<forall>errorFields. ParseComplete \<noteq> ErrorResponse errorFields" by simp
  have g3: "runQuery (explainQuery_text ((\<lambda>qtext. ''a1b2'') ''select 1'')
                (length (params \<lparr>fields' = [], params = []\<rparr>)))
           (?p\<lparr>events := events ?p @ [Send (ParseMsg ((\<lambda>qtext. ''a1b2'') ''select 1'') ''select 1'' []),
                  Send FlushMsg, Await [errorResponse, parseComplete]],
               inbox := [ErrorResponse permission_denied, CloseComplete]\<rparr>)
         = (Raised (JsError (Some ''unexpected message'')), ?p2)"
    by (simp add: explain_eval reject_all_def)
  have h3: "runQuery (explainQuery_text ((\<lambda>qtext. ''a1b2'') ''select 1'')
                (length (params \<lparr>fields' = [], params = []\<rparr>)))
           (?q\<lparr>events := events ?q @ [Send (ParseMsg ((\<lambda>qtext. ''a1b2'') ''select 1'') ''select 1'' []),
                  Send FlushMsg, Await [errorResponse, parseComplete]],
               inbox := [ErrorResponse permission_denied, ReadyForQuery ''I'', CloseComplete,
                         ReadyForQuery ''I'']\<rparr>)
         = (Raised (JsError (Some ''permission denied for table user_emails'')), ?q2)"
    by (simp add: explain_eval reject_errors_def permission_denied_def)
  from explainQuery_exception [OF g1 h2 g3] explainQuery_exception [OF h1 h2 h3]
  show ?thesis
    by (simp add: explain_eval reject_errors_def reject_all_def)
qed

text \<open>
  The claim as written fails when the clean-up fails: the server answers the
  prepared-statement parse, then the \<open>EXPLAIN EXECUTE\<close> with an error, and the await of
  close-complete with another error (here, that it is shutting down). The channel rejects
  the second error as it rejected the first, from inside the \<open>finally\<close> clause, and
  \<open>explainQuery\<close> raises it instead of returning the parse error.
\<close>

theorem explainQuery_exception_counterexample:
  "runQuery (explainQuery_text ''a1b2'' 0)
     \<lparr>events = [Send (ParseMsg ''a1b2'' ''select 1'' []), Send FlushMsg,
                Await [errorResponse, parseComplete]],
      inbox = [ErrorResponse permission_denied, ErrorResponse shutdown_notice],
      connectError = None, rejection = reject_errors\<rparr>
   = (Raised (JsError (Some ''permission denied for table user_emails'')),
      \<lparr>events = [Send (ParseMsg ''a1b2'' ''select 1'' []), Send FlushMsg,
                 Await [errorResponse, parseComplete],
                 Send (QueryMsg (''explain execute '' @ [dquote] @ ''a1b2'' @ [dquote] @ '';'')),
                 Await [rowDescription]],
       inbox = [ErrorResponse shutdown_notice], connectError = None, rejection = reject_errors\<rparr>)
   \<and> explainQuery (\<lambda>qtext. ''a1b2'') ''select 1'' (Inr \<lparr>fields' = [], params = []\<rparr>)
     \<lparr>events = [],
      inbox = [ParseComplete, ErrorResponse permission_denied, ErrorResponse shutdown_notice],
      connectError = None, rejection = reject_errors\<rparr>
   = (Raised (JsError (Some ''terminating connection due to administrator command'')),
      \<lparr>events = [Send (ParseMsg ''a1b2'' ''select 1'' []), Send FlushMsg,
                 Await [errorResponse, parseComplete],
                 Send (QueryMsg (''explain execute '' @ [dquote] @ ''a1b2'' @ [dquote] @ '';'')),
                 Await [rowDescription],
                 ConsoleError ''Error occurred whilst testing query:'',
                 Send (CloseMsg Statement ''a1b2''), Send FlushMsg, Send SyncMsg,
                 Await [closeComplete]],
       inbox = [], connectError = None, rejection = reject_errors\<rparr>)"
  by (simp add: explain_eval reject_errors_def permission_denied_def shutdown_notice_def)

section \<open>getComments and the pg_attribute query\<close>

lemma commentMatcher_group: "commentMatcher f = CHR ''('' # comment_body f @ '')''"
  by (simp add: commentMatcher_def comment_body_def)

lemma comment_body_group: "group_body (comment_body f)"
proof -
  have "CHR ''('' \<notin> set (show_int i)" "CHR '')'' \<notin> set (show_int i)" for i
    by (rule show_int_without, simp)+
  then show ?thesis by (simp add: group_body_def comment_body_def)
qed

lemma comment_body_eq:
  assumes "comment_body f = comment_body g"
  shows "show_int (columnAttrNumber f) = show_int (columnAttrNumber g)"
proof -
  have sp: "CHR '' '' \<notin> set (show_int i)" for i
    by (rule show_int_without) simp
  from assms have
    "show_int (tableOID f) @ CHR '' '' # (''and objsubid='' @ show_int (columnAttrNumber f))
     = show_int (tableOID g) @ CHR '' '' # (''and objsubid='' @ show_int (columnAttrNumber g))"
    by (simp add: comment_body_def)
  from append_eq_at_first [OF sp sp this] show ?thesis by simp
qed

lemma commentQuery_excludes:
  assumes "columnAttrNumber f \<le> 0" and "\<forall>g\<in>set columnFields. 0 < columnAttrNumber g"
  shows "\<not> sublist (commentMatcher f)
             (commentQuery (join '' or '' (map commentMatcher columnFields)))"
proof
  let ?m = "CHR ''('' # comment_body f @ '')''"
  let ?joined = "join '' or '' (map (\<lambda>x. CHR ''('' # x @ '')'') (map comment_body columnFields))"
  define hdr where
    "hdr = ''SELECT\<newline>      objoid, objsubid, description\<newline>     FROM pg_description WHERE ''"
  have cq: "commentQuery s = hdr @ (s @ '';'')" for s
    by (simp add: commentQuery_def hdr_def)
  have nohdr: "CHR ''('' \<notin> set hdr" by (simp add: hdr_def)
  have ms: "map commentMatcher columnFields
              = map (\<lambda>x. CHR ''('' # x @ '')'') (map comment_body columnFields)"
    by (induction columnFields) (simp_all add: commentMatcher_group)
  assume "sublist (commentMatcher f)
            (commentQuery (join '' or '' (map commentMatcher columnFields)))"
  then have "sublist ?m (hdr @ (?joined @ '';''))"
    by (simp only: cq ms commentMatcher_group)
  with nohdr have "sublist ?m (?joined @ '';'')"
    by (rule sublist_skip_prefix)
  moreover have "\<forall>x\<in>set (map comment_body columnFields). group_body x"
    by (simp add: comment_body_group)
  ultimately have "comment_body f \<in> set (map comment_body columnFields) \<or> sublist ?m '';''"
    using sublist_join_groups [of "comment_body f" "'' or ''" "map comment_body columnFields" "'';''"]
    by (simp add: comment_body_group)
  then show False
  proof
    assume "comment_body f \<in> set (map comment_body columnFields)"
    then obtain g where g: "g \<in> set columnFields" "comment_body f = comment_body g" by auto
    from comment_body_eq [OF g(2)] show False
      using show_int_sign [of "columnAttrNumber f" "columnAttrNumber g"] assms g(1) by auto
  next
    assume "sublist ?m '';''"
    then have "sublist ?m ('';'' @ [])" by simp
    then have "sublist ?m []" by (rule sublist_skip_prefix [rotated]) simp
    then show False by simp
  qed
qed

lemma sent_queries_awaits: "only_awaits evs \<Longrightarrow> sent_queries evs = []"
  by (induction evs) (auto simp: only_awaits_def sent_queries_def split: event.splits)

lemma getComments_queries:
  "sent_queries (drop (length (events q)) (events (snd (getComments Number tfields q))))
     = (if filter (\<lambda>f. columnAttrNumber f > 0) tfields = [] then []
        else [commentQuery (join '' or ''
                (map commentMatcher (filter (\<lambda>f. columnAttrNumber f > 0) tfields)))])"
proof (cases "filter (\<lambda>f. columnAttrNumber f > 0) tfields = []")
  case True
  then show ?thesis by (simp add: getComments_def ret_def sent_queries_def)
next
  case False
  let ?text = "commentQuery (join '' or ''
                (map commentMatcher (filter (\<lambda>f. columnAttrNumber f > 0) tfields)))"
  obtain r q1 where rq: "runQuery ?text q = (r, q1)" by (cases "runQuery ?text q") auto
  from runQuery_events [OF rq] obtain more where
    more: "events q1 = events q @ Send (QueryMsg ?text) # more" "only_awaits more" by blast
  have "events (snd (getComments Number tfields q)) = events q1"
    using False rq
    by (auto simp: getComments_def Let_def andThen_def ret_def split: outcome.splits)
  with more have "sent_queries (drop (length (events q)) (events (snd (getComments Number tfields q))))
      = ?text # sent_queries more"
    by (simp add: sent_queries_def)
  with more(2) False show ?thesis by (simp add: sent_queries_awaits)
qed

lemma attributeQuery_includes:
  assumes "f \<in> set tfields"
  shows "sublist (attrMatcher f) (attributeQuery tfields)"
proof -
  define hdr where
    "hdr = ''SELECT\<newline>      (attrelid || ':' || attnum) AS attid, attname, attnotnull\<newline>     FROM pg_attribute WHERE ''"
  from assms have "tfields \<noteq> []" by auto
  then have aq: "attributeQuery tfields = hdr @ join '' or '' (map attrMatcher tfields) @ '';''"
    by (simp add: attributeQuery_def attrSelection_def hdr_def)
  from assms have "sublist (attrMatcher f) (join '' or '' (map attrMatcher tfields))"
    by (intro sublist_join_member) simp
  moreover have "sublist (join '' or '' (map attrMatcher tfields))
                   (hdr @ join '' or '' (map attrMatcher tfields) @ '';'')"
    by (rule sublist_appendI)
  ultimately have "sublist (attrMatcher f) (hdr @ join '' or '' (map attrMatcher tfields) @ '';'')"
    by (rule sublist_order.order.trans)
  then show ?thesis by (simp only: aq)
qed

text \<open>
  Claim C1 (as amended). A field with \<open>columnAttrNumber \<le> 0\<close> is excluded from the comment
  lookup: no query that \<open>getComments\<close> sends contains the predicate for the field's
  \<open>(tableOID, columnAttrNumber)\<close> pair. The \<open>pg_attribute\<close> query built inside \<open>getTypes\<close> is
  built from all the fields: it contains the predicate of every field, also of one with
  \<open>columnAttrNumber \<le> 0\<close>.
\<close>

theorem comment_lookup_excludes:
  "(columnAttrNumber f \<le> 0 \<longrightarrow>
      (\<forall>qtext \<in> set (sent_queries (drop (length (events q))
                                     (events (snd (getComments Number tfields q))))).
         \<not> sublist (commentMatcher f) qtext))
   \<and> (f \<in> set tfields \<longrightarrow> sublist (attrMatcher f) (attributeQuery tfields))"
proof -
  have "\<not> sublist (commentMatcher f)
            (commentQuery (join '' or ''
               (map commentMatcher (filter (\<lambda>f. columnAttrNumber f > 0) tfields))))"
    if "columnAttrNumber f \<le> 0"
    using that by (intro commentQuery_excludes) auto
  then show ?thesis
    by (auto simp: getComments_queries attributeQuery_includes)
qed

theorem comment_lookup_excludes_witness:
  "columnAttrNumber count_field \<le> 0
   \<and> count_field \<in> set [id_field, count_field]
   \<and> sent_queries (drop (length (events
          \<lparr>events = [], inbox = [RowDescription [], DataRow [''16385'', ''1'', ''the key''],
                                 CommandComplete ''SELECT 1''],
           connectError = None, rejection = reject_all\<rparr>))
        (events (snd (getComments Number_of_oid [id_field, count_field]
          \<lparr>events = [], inbox = [RowDescription [], DataRow [''16385'', ''1'', ''the key''],
                                 CommandComplete ''SELECT 1''],
           connectError = None, rejection = reject_all\<rparr>))))
      = [commentQuery ''(objoid=16385 and objsubid=1)'']
   \<and> commentMatcher count_field = ''(objoid=0 and objsubid=0)''
   \<and> \<not> sublist (commentMatcher count_field) (commentQuery ''(objoid=16385 and objsubid=1)'')
   \<and> sublist (attrMatcher count_field) (attributeQuery [id_field, count_field])"
proof -
  let ?q = "\<lparr>events = [], inbox = [RowDescription [], DataRow [''16385'', ''1'', ''the key''],
                                 CommandComplete ''SELECT 1''],
           connectError = None, rejection = reject_all\<rparr>"
  have c: "columnAttrNumber count_field \<le> 0" by (simp add: count_field_def)
  have m: "count_field \<in> set [id_field, count_field]" by simp
  have ev: "sent_queries (drop (length (events ?q))
              (events (snd (getComments Number_of_oid [id_field, count_field] ?q))))
            = [commentQuery ''(objoid=16385 and objsubid=1)'']"
    by (simp add: getComments_def run_eval sent_queries_def count_field_def id_field_def
        commentMatcher_def show_eval)
  have cm: "commentMatcher count_field = ''(objoid=0 and objsubid=0)''"
    by (simp add: commentMatcher_def count_field_def show_eval)
  from comment_lookup_excludes [of count_field ?q Number_of_oid "[id_field, count_field]"] c m
  have "(\<forall>qtext \<in> set (sent_queries (drop (length (events ?q))
              (events (snd (getComments Number_of_oid [id_field, count_field] ?q))))).
           \<not> sublist (commentMatcher count_field) qtext)
        \<and> sublist (attrMatcher count_field) (attributeQuery [id_field, count_field])"
    by blast
  then have "\<not> sublist (commentMatcher count_field) (commentQuery ''(objoid=16385 and objsubid=1)'')
        \<and> sublist (attrMatcher count_field) (attributeQuery [id_field, count_field])"
    by (simp only: ev) simp
  with c m ev cm show ?thesis by blast
qed

text \<open>
  The claim as written fails for the \<open>pg_attribute\<close> query: for the single computed field
  \<open>count\<close>, with \<open>tableOID = 0\<close> and \<open>columnAttrNumber = 0\<close>, the query built inside
  \<open>getTypes\<close> is the predicate for the pair \<open>(0, 0)\<close>.
\<close>

theorem attribute_lookup_counterexample:
  "columnAttrNumber count_field \<le> 0
   \<and> attrMatcher count_field = ''(attrelid = 0 and attnum = 0)''
   \<and> attributeQuery [count_field]
       = ''SELECT\<newline>      (attrelid || ':' || attnum) AS attid, attname, attnotnull\<newline>     FROM pg_attribute WHERE (attrelid = 0 and attnum = 0);''
   \<and> sublist (attrMatcher count_field) (attributeQuery [count_field])"
proof -
  have "sublist (attrMatcher count_field) (attributeQuery [count_field])"
    by (rule attributeQuery_includes) simp
  then show ?thesis
    by (simp add: attributeQuery_def attrSelection_def attrMatcher_def count_field_def show_eval)
qed

section \<open>The entries of returnTypes\<close>

lemma attrMap_None:
  "(attrMap attributeRows k = None)
     = (k \<notin> set (map (\<lambda>row. template_text (column row 0)) attributeRows))"
  unfolding attrMap_def
  by (induction attributeRows rule: rev_induct) auto

text \<open>
  Claim C10. For a probed field whose key \<open>tableOID:columnAttrNumber\<close> is the \<open>attid\<close> of no
  row that the \<open>pg_attribute\<close> query returned, the entry of \<open>returnTypes\<close> has no
  \<open>columnName\<close> and no \<open>nullable\<close>, its \<open>returnName\<close> is the name of the field and its
  \<open>type\<close> is what the catalogue type map has for the field's type oid.
\<close>

theorem returnTypes_unmatched:
  assumes "i < length tfields"
    and "getAttid (tfields ! i) \<notin> set (map (\<lambda>row. template_text (column row 0)) attributeRows)"
  shows "columnName (returnTypes tfields (attrMap attributeRows) comments typeMap ! i) = None
       \<and> nullable (returnTypes tfields (attrMap attributeRows) comments typeMap ! i) = None
       \<and> returnName (returnTypes tfields (attrMap attributeRows) comments typeMap ! i)
           = name (tfields ! i)
       \<and> type (returnTypes tfields (attrMap attributeRows) comments typeMap ! i)
           = typeMap (show_int (typeOID (tfields ! i)))"
proof -
  from assms(2) have "attrMap attributeRows (getAttid (tfields ! i)) = None"
    by (simp add: attrMap_None)
  with assms(1) show ?thesis by (simp add: returnTypes_def)
qed

theorem returnTypes_unmatched_witness:
  "getAttid count_field = ''0:0''
   \<and> ''0:0'' \<notin> set (map (\<lambda>row. template_text (column row 0)) [[''16385:1'', ''id'', ''t'']])
   \<and> returnTypes [id_field, count_field] (attrMap [[''16385:1'', ''id'', ''t'']]) Map.empty
        [''23'' \<mapsto> Scalar ''int4'', ''20'' \<mapsto> Scalar ''int8'']
      = [\<lparr>returnName = ''id'', columnName = Some ''id'', type = Some (Scalar ''int4''),
          nullable = Some False, comment = None\<rparr>,
         \<lparr>returnName = ''count'', columnName = None, type = Some (Scalar ''int8''),
          nullable = None, comment = None\<rparr>]"
proof -
  have k: "getAttid ([id_field, count_field] ! 1)
             \<notin> set (map (\<lambda>row. template_text (column row 0)) [[''16385:1'', ''id'', ''t'']])"
    by (simp add: getAttid_def count_field_def show_eval template_text_def column_def)
  from returnTypes_unmatched [OF _ k, of Map.empty
      "[''23'' \<mapsto> Scalar ''int4'', ''20'' \<mapsto> Scalar ''int8'']"]
  show ?thesis
    by (simp add: returnTypes_def attrMap_def getAttid_def count_field_def id_field_def show_eval
        template_text_def column_def truthy_def)
qed

section \<open>reduceTypeRows\<close>















section \<open>startup\<close>

lemma startup_try_password_falsy:
  assumes "\<not> truthy (password opts)"
  shows "startup_try md5_hex sasl opts q =
     andThen (connect (host opts) (port opts)) (\<lambda>connected.
     andThen (send (StartupMessage (startupParams opts))) (\<lambda>sent.
     andThen (reply [readyForQuery, authenticationCleartextPassword,
                     authenticationMD5Password, authenticationSASL]) (\<lambda>result.
     (case result of
        ReadyForQuery trxStatus \<Rightarrow> ret ()
      | other \<Rightarrow> throw (JsError (Some ''password required for hash auth'')))))) q"
proof -
  have "\<And>result. (case result of
        ReadyForQuery trxStatus \<Rightarrow> ret ()
      | other \<Rightarrow>
          if \<not> truthy (password opts)
          then throw (JsError (Some ''password required for hash auth''))
          else
            (let pw = the (password opts) in
             case result of
               SASLRequest SASLMechanisms \<Rightarrow> startup_sasl sasl pw SASLMechanisms
             | other \<Rightarrow>
                 (let pw = (case result of
                              MD5PasswordRequest salt \<Rightarrow> generateHash md5_hex (user opts) pw salt
                            | other \<Rightarrow> pw) in
                  andThen (send (PasswordMessage pw)) (\<lambda>sent.
                  andThen (reply [authenticationOk]) (\<lambda>ok.
                  andThen (reply [readyForQuery]) (\<lambda>ready. ret ()))))))
     = (case result of
        ReadyForQuery trxStatus \<Rightarrow> ret ()
      | other \<Rightarrow> throw (JsError (Some ''password required for hash auth'')))"
    using assms by (simp split: server_msg.splits)
  then show ?thesis
    by (simp add: startup_try_def)
qed

lemma startup_password_falsy_eq:
  "startup md5_hex sasl (opts\<lparr>password := Some []\<rparr>) q
     = startup md5_hex sasl (opts\<lparr>password := None\<rparr>) q"
  by (simp add: startup_def startup_try_password_falsy truthy_def startupParams_def)

lemma startup_password_required:
  assumes "\<not> truthy (password opts)" "connectError q = None"
    and "receive (rejection q)
           [readyForQuery, authenticationCleartextPassword, authenticationMD5Password,
            authenticationSASL] (inbox q) = (Done request, rest)"
    and "request = CleartextPasswordRequest \<or> (\<exists>salt. request = MD5PasswordRequest salt)
           \<or> (\<exists>mechanisms. request = SASLRequest mechanisms)"
  shows "startup md5_hex sasl opts q =
           (ProcessExit 1,
            q\<lparr>events := events q @
                 [Connect (host opts) (port opts),
                  Send (StartupMessage (startupParams opts)),
                  Await [readyForQuery, authenticationCleartextPassword,
                         authenticationMD5Password, authenticationSASL],
                  ConsoleError ''Connection failed: password required for hash auth''],
               inbox := rest\<rparr>)"
  using assms
  by (auto simp: startup_def startup_try_password_falsy andThen_def connect_def send_def
      reply_def throw_def template_text_def)

text \<open>
  Claim C9. With the empty string as password \<open>startup\<close> does what it does with no
  password, on every channel; and when the connection is made and the server's answer to
  the startup message is a request for a cleartext password, for an MD5 password or for
  SASL, it writes \<open>Connection failed: password required for hash auth\<close> and ends the
  process with exit code 1, having sent nothing but the startup message.
\<close>

theorem startup_empty_password:
  "startup md5_hex sasl (opts\<lparr>password := Some []\<rparr>) q
     = startup md5_hex sasl (opts\<lparr>password := None\<rparr>) q
   \<and> (connectError q = None
        \<and> receive (rejection q)
             [readyForQuery, authenticationCleartextPassword, authenticationMD5Password,
              authenticationSASL] (inbox q) = (Done request, rest)
        \<and> (request = CleartextPasswordRequest \<or> (\<exists>salt. request = MD5PasswordRequest salt)
             \<or> (\<exists>mechanisms. request = SASLRequest mechanisms))
        \<longrightarrow> startup md5_hex sasl (opts\<lparr>password := Some []\<rparr>) q =
              (ProcessExit 1,
               q\<lparr>events := events q @
                    [Connect (host opts) (port opts),
                     Send (StartupMessage (startupParams opts)),
                     Await [readyForQuery, authenticationCleartextPassword,
                            authenticationMD5Password, authenticationSASL],
                     ConsoleError ''Connection failed: password required for hash auth''],
                  inbox := rest\<rparr>))"
proof (intro conjI impI)
  show "startup md5_hex sasl (opts\<lparr>password := Some []\<rparr>) q
          = startup md5_hex sasl (opts\<lparr>password := None\<rparr>) q"
    by (rule startup_password_falsy_eq)
next
  assume a: "connectError q = None
        \<and> receive (rejection q)
             [readyForQuery, authenticationCleartextPassword, authenticationMD5Password,
              authenticationSASL] (inbox q) = (Done request, rest)
        \<and> (request = CleartextPasswordRequest \<or> (\<exists>salt. request = MD5PasswordRequest salt)
             \<or> (\<exists>mechanisms. request = SASLRequest mechanisms))"
  have "\<not> truthy (password (opts\<lparr>password := Some []\<rparr>))" by (simp add: truthy_def)
  from startup_password_required [OF this, of q request rest md5_hex sasl] a
  show "startup md5_hex sasl (opts\<lparr>password := Some []\<rparr>) q =
              (ProcessExit 1,
               q\<lparr>events := events q @
                    [Connect (host opts) (port opts),
                     Send (StartupMessage (startupParams opts)),
                     Await [readyForQuery, authenticationCleartextPassword,
                            authenticationMD5Password, authenticationSASL],
                     ConsoleError ''Connection failed: password required for hash auth''],
                  inbox := rest\<rparr>)"
    by (simp add: startupParams_def)
qed

lemmas startup_eval =
  startup_def startup_try_def startup_sasl_def startupParams_def connect_def template_text_def
  truthy_def generateHash_def run_eval

theorem startup_empty_password_witness:
  "startup (\<lambda>s. ''0f'' @ s) example_sasl (example_options\<lparr>password := Some []\<rparr>)
     \<lparr>events = [], inbox = [MD5PasswordRequest ''salt''], connectError = None,
      rejection = reject_all\<rparr>
   = (ProcessExit 1,
      \<lparr>events = [Connect ''localhost'' 5432,
                 Send (StartupMessage [(''user'', ''postgres''), (''database'', ''test''),
                         (''client_encoding'', [CHR 0x27] @ ''utf-8'' @ [CHR 0x27]),
                         (''application_name'', ''pgtyped'')]),
                 Await [readyForQuery, authenticationCleartextPassword,
                        authenticationMD5Password, authenticationSASL],
                 ConsoleError ''Connection failed: password required for hash auth''],
       inbox = [], connectError = None, rejection = reject_all\<rparr>)
   \<and> startup (\<lambda>s. ''0f'' @ s) example_sasl (example_options\<lparr>password := None\<rparr>)
     \<lparr>events = [], inbox = [MD5PasswordRequest ''salt''], connectError = None,
      rejection = reject_all\<rparr>
   = startup (\<lambda>s. ''0f'' @ s) example_sasl (example_options\<lparr>password := Some []\<rparr>)
     \<lparr>events = [], inbox = [MD5PasswordRequest ''salt''], connectError = None,
      rejection = reject_all\<rparr>
   \<and> startup (\<lambda>s. ''0f'' @ s) example_sasl example_options
     \<lparr>events = [], inbox = [MD5PasswordRequest ''salt'', AuthenticationOk, ReadyForQuery ''I''],
      connectError = None, rejection = reject_all\<rparr>
   = (Returned,
      \<lparr>events = [Connect ''localhost'' 5432,
                 Send (StartupMessage [(''user'', ''postgres''), (''database'', ''test''),
                         (''client_encoding'', [CHR 0x27] @ ''utf-8'' @ [CHR 0x27]),
                         (''application_name'', ''pgtyped'')]),
                 Await [readyForQuery, authenticationCleartextPassword,
                        authenticationMD5Password, authenticationSASL],
                 Send (PasswordMessage ''md50f0fsecretpostgressalt''),
                 Await [authenticationOk], Await [readyForQuery]],
       inbox = [], connectError = None, rejection = reject_all\<rparr>)"
proof -
  let ?q = "\<lparr>events = [], inbox = [MD5PasswordRequest ''salt''], connectError = None,
      rejection = reject_all\<rparr>"
  have h: "connectError ?q = None
        \<and> receive (rejection ?q)
             [readyForQuery, authenticationCleartextPassword, authenticationMD5Password,
              authenticationSASL] (inbox ?q) = (Done (MD5PasswordRequest ''salt''), [])
        \<and> (MD5PasswordRequest ''salt'' = CleartextPasswordRequest
             \<or> (\<exists>salt. MD5PasswordRequest ''salt'' = MD5PasswordRequest salt)
             \<or> (\<exists>mechanisms. MD5PasswordRequest ''salt'' = SASLRequest mechanisms))"
    by simp
  from startup_empty_password [of "\<lambda>s. ''0f'' @ s" example_sasl example_options ?q
      "MD5PasswordRequest ''salt''" "[]"] h
  show ?thesis
    by (simp add: startup_eval example_options_def)
qed







end
